theory Spec2Isabelle
  imports Main "HOL-Library.Sublist" "HOL-Library.Multiset" "HOL-Library.Char_ord"
    "HOL-Library.List_Lexorder"
begin

section \<open>The storage layer of WarehousePro\<close>

text \<open>
  The development embeds the class \<open>DatabaseStorage\<close> (the server's storage module): every
  method is a function on an explicit database state \<open>db\<close>. A table is the list of its rows, a
  \<open>select\<close> keeps the rows in table order, \<open>limit(1)\<close> with array destructuring reads the first
  row of the answer, and \<open>new Date()\<close> is the argument \<open>now\<close> of the call.

  The schema module (\<open>@shared/schema\<close>) is not among the sources. The row types below carry the
  fields that the storage module itself names; quantities and money amounts are whole numbers,
  which the store holds exactly and JavaScript computes with as doubles (see \<open>Number\<close>
  below), identifiers of serial tables are natural numbers drawn from a per-table counter, and
  timestamps are natural numbers. Failures of the store itself
  (an unreachable store, a constraint declared in the schema) throw and are outside this model,
  and so is any action the schema attaches to a foreign key.
\<close>

type_synonym timestamp = nat

subsection \<open>Inventory balances\<close>

record inventory =
  i_id :: nat
  i_productId :: nat
  i_warehouseId :: string
  i_quantity :: int
  i_reservedQuantity :: int
  i_location :: "string option"
  i_lastCountDate :: "timestamp option"
  i_createdAt :: "timestamp option"
  i_updatedAt :: "timestamp option"

text \<open>\<open>InsertInventory\<close>: the fields a caller supplies; absent optional ones are \<open>None\<close>.\<close>

record insertInventory =
  ii_productId :: nat
  ii_warehouseId :: string
  ii_quantity :: int
  ii_reservedQuantity :: int
  ii_location :: "string option"
  ii_lastCountDate :: "timestamp option"

text \<open>
  \<open>Partial<Inventory>\<close>: an object literal is the list of its property assignments, in order;
  the spread \<open>{ ...inv, updatedAt: new Date() }\<close> appends the stamp, so the stamp wins.
\<close>

datatype inventory_field =
    I_id nat
  | I_productId nat
  | I_warehouseId string
  | I_quantity int
  | I_reservedQuantity int
  | I_location "string option"
  | I_lastCountDate "timestamp option"
  | I_createdAt "timestamp option"
  | I_updatedAt "timestamp option"

fun set_inventory :: "inventory_field \<Rightarrow> inventory \<Rightarrow> inventory" where
  "set_inventory (I_id v) r = r\<lparr>i_id := v\<rparr>"
| "set_inventory (I_productId v) r = r\<lparr>i_productId := v\<rparr>"
| "set_inventory (I_warehouseId v) r = r\<lparr>i_warehouseId := v\<rparr>"
| "set_inventory (I_quantity v) r = r\<lparr>i_quantity := v\<rparr>"
| "set_inventory (I_reservedQuantity v) r = r\<lparr>i_reservedQuantity := v\<rparr>"
| "set_inventory (I_location v) r = r\<lparr>i_location := v\<rparr>"
| "set_inventory (I_lastCountDate v) r = r\<lparr>i_lastCountDate := v\<rparr>"
| "set_inventory (I_createdAt v) r = r\<lparr>i_createdAt := v\<rparr>"
| "set_inventory (I_updatedAt v) r = r\<lparr>i_updatedAt := v\<rparr>"

definition merge_inventory :: "inventory_field list \<Rightarrow> inventory \<Rightarrow> inventory" where
  "merge_inventory fs r = fold set_inventory fs r"

subsection \<open>Stock movements\<close>

record insertStockMovement =
  im_productId :: nat
  im_warehouseId :: string
  im_direction :: string
  im_quantity :: int

record stockMovement =
  m_id :: nat
  m_productId :: nat
  m_warehouseId :: string
  m_direction :: string
  m_quantity :: int
  m_createdAt :: timestamp

subsection \<open>Products\<close>

text \<open>
  The twenty-five fields of \<open>Product\<close>, as \<open>getLowStockItems\<close> lists them. A column that may
  be \<open>null\<close> is an option.
\<close>

record product =
  p_id :: nat
  p_sku :: string
  p_name :: string
  p_description :: "string option"
  p_categoryId :: "nat option"
  p_uomId :: "string option"
  p_price :: "int option"
  p_cost :: "int option"
  p_weight :: "int option"
  p_length :: "int option"
  p_width :: "int option"
  p_height :: "int option"
  p_minStockLevel :: "int option"
  p_maxStockLevel :: "int option"
  p_reorderPoint :: "int option"
  p_leadTime :: "int option"
  p_isActive :: bool
  p_imageUrl :: "string option"
  p_barcode :: "string option"
  p_createdAt :: "timestamp option"
  p_updatedAt :: "timestamp option"
  p_deletedAt :: "timestamp option"
  p_createdBy :: "nat option"
  p_updatedBy :: "nat option"
  p_deletedBy :: "nat option"

text \<open>\<open>Partial<Product>\<close>, as the list of the assignments of the object literal.\<close>

datatype product_field =
    P_id nat
  | P_sku string
  | P_name string
  | P_description "string option"
  | P_categoryId "nat option"
  | P_uomId "string option"
  | P_price "int option"
  | P_cost "int option"
  | P_weight "int option"
  | P_length "int option"
  | P_width "int option"
  | P_height "int option"
  | P_minStockLevel "int option"
  | P_maxStockLevel "int option"
  | P_reorderPoint "int option"
  | P_leadTime "int option"
  | P_isActive bool
  | P_imageUrl "string option"
  | P_barcode "string option"
  | P_createdAt "timestamp option"
  | P_updatedAt "timestamp option"
  | P_deletedAt "timestamp option"
  | P_createdBy "nat option"
  | P_updatedBy "nat option"
  | P_deletedBy "nat option"

fun set_product :: "product_field \<Rightarrow> product \<Rightarrow> product" where
  "set_product (P_id v) r = r\<lparr>p_id := v\<rparr>"
| "set_product (P_sku v) r = r\<lparr>p_sku := v\<rparr>"
| "set_product (P_name v) r = r\<lparr>p_name := v\<rparr>"
| "set_product (P_description v) r = r\<lparr>p_description := v\<rparr>"
| "set_product (P_categoryId v) r = r\<lparr>p_categoryId := v\<rparr>"
| "set_product (P_uomId v) r = r\<lparr>p_uomId := v\<rparr>"
| "set_product (P_price v) r = r\<lparr>p_price := v\<rparr>"
| "set_product (P_cost v) r = r\<lparr>p_cost := v\<rparr>"
| "set_product (P_weight v) r = r\<lparr>p_weight := v\<rparr>"
| "set_product (P_length v) r = r\<lparr>p_length := v\<rparr>"
| "set_product (P_width v) r = r\<lparr>p_width := v\<rparr>"
| "set_product (P_height v) r = r\<lparr>p_height := v\<rparr>"
| "set_product (P_minStockLevel v) r = r\<lparr>p_minStockLevel := v\<rparr>"
| "set_product (P_maxStockLevel v) r = r\<lparr>p_maxStockLevel := v\<rparr>"
| "set_product (P_reorderPoint v) r = r\<lparr>p_reorderPoint := v\<rparr>"
| "set_product (P_leadTime v) r = r\<lparr>p_leadTime := v\<rparr>"
| "set_product (P_isActive v) r = r\<lparr>p_isActive := v\<rparr>"
| "set_product (P_imageUrl v) r = r\<lparr>p_imageUrl := v\<rparr>"
| "set_product (P_barcode v) r = r\<lparr>p_barcode := v\<rparr>"
| "set_product (P_createdAt v) r = r\<lparr>p_createdAt := v\<rparr>"
| "set_product (P_updatedAt v) r = r\<lparr>p_updatedAt := v\<rparr>"
| "set_product (P_deletedAt v) r = r\<lparr>p_deletedAt := v\<rparr>"
| "set_product (P_createdBy v) r = r\<lparr>p_createdBy := v\<rparr>"
| "set_product (P_updatedBy v) r = r\<lparr>p_updatedBy := v\<rparr>"
| "set_product (P_deletedBy v) r = r\<lparr>p_deletedBy := v\<rparr>"

definition merge_product :: "product_field list \<Rightarrow> product \<Rightarrow> product" where
  "merge_product fs r = fold set_product fs r"

subsection \<open>The other tables\<close>

text \<open>
  Users, product categories, units of measure, warehouses and class types are soft-deletable
  rows with a key and a display name (\<open>username\<close> for users); the storage module reads no other
  column of them, so the remaining columns are a map from column name to value. Orders and order
  items are deleted physically.
\<close>

record 'k entity =
  e_id :: 'k
  e_name :: string
  e_rest :: "string \<rightharpoonup> string"
  e_updatedAt :: "timestamp option"
  e_deletedAt :: "timestamp option"

datatype 'k entity_field =
    E_id 'k
  | E_name string
  | E_rest string string
  | E_updatedAt "timestamp option"
  | E_deletedAt "timestamp option"

fun set_entity :: "'k entity_field \<Rightarrow> 'k entity \<Rightarrow> 'k entity" where
  "set_entity (E_id v) r = r\<lparr>e_id := v\<rparr>"
| "set_entity (E_name v) r = r\<lparr>e_name := v\<rparr>"
| "set_entity (E_rest c v) r = r\<lparr>e_rest := (e_rest r)(c \<mapsto> v)\<rparr>"
| "set_entity (E_updatedAt v) r = r\<lparr>e_updatedAt := v\<rparr>"
| "set_entity (E_deletedAt v) r = r\<lparr>e_deletedAt := v\<rparr>"

definition merge_entity :: "'k entity_field list \<Rightarrow> 'k entity \<Rightarrow> 'k entity" where
  "merge_entity fs r = fold set_entity fs r"

record order =
  o_id :: nat
  o_status :: string
  o_orderDate :: timestamp
  o_rest :: "string \<rightharpoonup> string"
  o_updatedAt :: "timestamp option"

datatype order_field =
    O_id nat
  | O_status string
  | O_orderDate timestamp
  | O_rest string string
  | O_updatedAt "timestamp option"

fun set_order :: "order_field \<Rightarrow> order \<Rightarrow> order" where
  "set_order (O_id v) r = r\<lparr>o_id := v\<rparr>"
| "set_order (O_status v) r = r\<lparr>o_status := v\<rparr>"
| "set_order (O_orderDate v) r = r\<lparr>o_orderDate := v\<rparr>"
| "set_order (O_rest c v) r = r\<lparr>o_rest := (o_rest r)(c \<mapsto> v)\<rparr>"
| "set_order (O_updatedAt v) r = r\<lparr>o_updatedAt := v\<rparr>"

definition merge_order :: "order_field list \<Rightarrow> order \<Rightarrow> order" where
  "merge_order fs r = fold set_order fs r"

record orderItem =
  oi_id :: nat
  oi_orderId :: nat
  oi_rest :: "string \<rightharpoonup> string"

datatype orderItem_field =
    OI_id nat
  | OI_orderId nat
  | OI_rest string string

fun set_orderItem :: "orderItem_field \<Rightarrow> orderItem \<Rightarrow> orderItem" where
  "set_orderItem (OI_id v) r = r\<lparr>oi_id := v\<rparr>"
| "set_orderItem (OI_orderId v) r = r\<lparr>oi_orderId := v\<rparr>"
| "set_orderItem (OI_rest c v) r = r\<lparr>oi_rest := (oi_rest r)(c \<mapsto> v)\<rparr>"

definition merge_orderItem :: "orderItem_field list \<Rightarrow> orderItem \<Rightarrow> orderItem" where
  "merge_orderItem fs r = fold set_orderItem fs r"

subsection \<open>The database\<close>

text \<open>
  One list of rows per table and, for a table with a serial key, the next value of its sequence.
\<close>

record db =
  users :: "nat entity list"
  users_seq :: nat
  products :: "product list"
  products_seq :: nat
  productCategories :: "nat entity list"
  productCategories_seq :: nat
  unitsOfMeasure :: "string entity list"
  inventory :: "inventory list"
  inventory_seq :: nat
  stockMovements :: "stockMovement list"
  stockMovements_seq :: nat
  orders :: "order list"
  orders_seq :: nat
  orderItems :: "orderItem list"
  orderItems_seq :: nat
  warehouses :: "string entity list"
  classTypes :: "string entity list"

text \<open>
  \<open>const [x] = await db.select()...\<close>: the first row of the answer, \<open>undefined\<close> when there
  is none.
\<close>

fun first_row :: "'a list \<Rightarrow> 'a option" where
  "first_row [] = None"
| "first_row (x # xs) = Some x"

text \<open>\<open>orderBy(desc(column))\<close>: the largest key first.\<close>

definition order_by_desc :: "('a \<Rightarrow> 'k::linorder) \<Rightarrow> 'a list \<Rightarrow> 'a list" where
  "order_by_desc f xs = rev (sort_key f xs)"

subsection \<open>SQL expressions\<close>

text \<open>
  \<open>ILIKE\<close> is \<open>LIKE\<close> on the lower-cased text and pattern (ASCII letters; any other byte is
  kept). In a \<open>LIKE\<close> pattern \<open>%\<close> stands for any run of characters, \<open>_\<close> for any one
  character, and a backslash makes the next pattern character literal. PostgreSQL rejects a
  pattern whose last character is an unescaped backslash; \<open>like_match\<close> answers \<open>False\<close>
  there, and \<open>lone_escape\<close> is the test for such a pattern.
\<close>

definition lower_char :: "char \<Rightarrow> char" where
  "lower_char c =
     (let n = (of_char c :: nat) in if 65 \<le> n \<and> n \<le> 90 then char_of (n + 32) else c)"

definition lower :: "string \<Rightarrow> string" where
  "lower s = map lower_char s"

fun like_match :: "string \<Rightarrow> string \<Rightarrow> bool" where
  "like_match t [] = (t = [])"
| "like_match t (p # ps) =
     (if p = CHR ''%'' then
        (like_match t ps \<or> (case t of [] \<Rightarrow> False | c # cs \<Rightarrow> like_match cs (p # ps)))
      else if p = CHR ''_'' then
        (case t of [] \<Rightarrow> False | c # cs \<Rightarrow> like_match cs ps)
      else if p = CHR 0x5C then
        (case ps of [] \<Rightarrow> False
         | e # es \<Rightarrow> (case t of [] \<Rightarrow> False | c # cs \<Rightarrow> c = e \<and> like_match cs es))
      else
        (case t of [] \<Rightarrow> False | c # cs \<Rightarrow> c = p \<and> like_match cs ps))"

fun lone_escape :: "string \<Rightarrow> bool" where
  "lone_escape [] = False"
| "lone_escape [c] = (c = CHR 0x5C)"
| "lone_escape (c # d # cs) = (if c = CHR 0x5C then lone_escape cs else lone_escape (d # cs))"

definition ilike :: "string \<Rightarrow> string \<Rightarrow> bool" where
  "ilike t p = like_match (lower t) (lower p)"

text \<open>
  A comparison with \<open>NULL\<close> is \<open>NULL\<close>, and \<open>WHERE\<close> keeps a row only when its condition is
  true. \<open>SUM\<close> skips \<open>NULL\<close> and is \<open>NULL\<close> when nothing is left.
\<close>

definition sql_le :: "int option \<Rightarrow> int option \<Rightarrow> bool option" where
  "sql_le a b = (case a of None \<Rightarrow> None | Some x \<Rightarrow> (case b of None \<Rightarrow> None | Some y \<Rightarrow> Some (x \<le> y)))"

definition sql_times :: "int option \<Rightarrow> int option \<Rightarrow> int option" where
  "sql_times a b = (case a of None \<Rightarrow> None | Some x \<Rightarrow> (case b of None \<Rightarrow> None | Some y \<Rightarrow> Some (x * y)))"

definition is_true :: "bool option \<Rightarrow> bool" where
  "is_true c = (c = Some True)"

fun non_null :: "'a option list \<Rightarrow> 'a list" where
  "non_null [] = []"
| "non_null (None # vs) = non_null vs"
| "non_null (Some v # vs) = v # non_null vs"

definition sql_sum :: "int option list \<Rightarrow> int option" where
  "sql_sum vs = (case non_null vs of [] \<Rightarrow> None | x # xs \<Rightarrow> Some (sum_list (x # xs)))"

subsection \<open>Products: the entity store\<close>

definition getProduct :: "db \<Rightarrow> nat \<Rightarrow> product option" where
  "getProduct s ident =
     first_row (take 1 (filter (\<lambda>p. p_id p = ident \<and> p_deletedAt p = None) (products s)))"

definition getProductBySku :: "db \<Rightarrow> string \<Rightarrow> product option" where
  "getProductBySku s sku =
     first_row (take 1 (filter (\<lambda>p. p_sku p = sku \<and> p_deletedAt p = None) (products s)))"

text \<open>
  \<open>InsertProduct\<close>: the business key, the name and any further assignments; the key comes from
  the sequence and the row starts from the column defaults.
\<close>

record insertProduct =
  ip_sku :: string
  ip_name :: string
  ip_fields :: "product_field list"

definition createProduct :: "db \<Rightarrow> insertProduct \<Rightarrow> timestamp \<Rightarrow> db \<times> product" where
  "createProduct s ins now =
     (let newProduct = merge_product (ip_fields ins)
        \<lparr>p_id = products_seq s, p_sku = ip_sku ins, p_name = ip_name ins,
         p_description = None, p_categoryId = None, p_uomId = None, p_price = None,
         p_cost = None, p_weight = None, p_length = None, p_width = None, p_height = None,
         p_minStockLevel = None, p_maxStockLevel = None, p_reorderPoint = None,
         p_leadTime = None, p_isActive = True, p_imageUrl = None, p_barcode = None,
         p_createdAt = Some now, p_updatedAt = Some now, p_deletedAt = None,
         p_createdBy = None, p_updatedBy = None, p_deletedBy = None\<rparr>
      in (s\<lparr>products := products s @ [newProduct], products_seq := Suc (products_seq s)\<rparr>,
          newProduct))"

definition updateProduct ::
  "db \<Rightarrow> nat \<Rightarrow> product_field list \<Rightarrow> timestamp \<Rightarrow> db \<times> product option" where
  "updateProduct s ident product now =
     (let assignments = product @ [P_updatedAt (Some now)];
          returning = map (merge_product assignments) (filter (\<lambda>p. p_id p = ident) (products s))
      in (s\<lparr>products :=
              map (\<lambda>p. if p_id p = ident then merge_product assignments p else p) (products s)\<rparr>,
          first_row returning))"

definition deleteProduct :: "db \<Rightarrow> nat \<Rightarrow> timestamp \<Rightarrow> db \<times> bool" where
  "deleteProduct s ident now =
     (let assignments = [P_deletedAt (Some now)];
          returning = map (merge_product assignments) (filter (\<lambda>p. p_id p = ident) (products s))
      in (s\<lparr>products :=
              map (\<lambda>p. if p_id p = ident then merge_product assignments p else p) (products s)\<rparr>,
          first_row returning \<noteq> None))"

definition getAllProducts :: "db \<Rightarrow> product list" where
  "getAllProducts s = sort_key p_name (filter (\<lambda>p. p_deletedAt p = None) (products s))"

definition searchProducts :: "db \<Rightarrow> string \<Rightarrow> product list" where
  "searchProducts s query =
     sort_key p_name
       (filter (\<lambda>p. p_deletedAt p = None \<and>
                    (ilike (p_name p) (CHR ''%'' # query @ [CHR ''%'']) \<or>
                     ilike (p_sku p) (CHR ''%'' # query @ [CHR ''%''])))
          (products s))"

subsection \<open>Inventory balances: plain reads and writes\<close>

definition getInventory :: "db \<Rightarrow> nat \<Rightarrow> inventory option" where
  "getInventory s ident = first_row (take 1 (filter (\<lambda>i. i_id i = ident) (inventory s)))"

definition createInventory :: "db \<Rightarrow> insertInventory \<Rightarrow> timestamp \<Rightarrow> db \<times> inventory" where
  "createInventory s inv' now =
     (let newInv = \<lparr>i_id = inventory_seq s, i_productId = ii_productId inv',
                    i_warehouseId = ii_warehouseId inv', i_quantity = ii_quantity inv',
                    i_reservedQuantity = ii_reservedQuantity inv', i_location = ii_location inv',
                    i_lastCountDate = ii_lastCountDate inv', i_createdAt = Some now,
                    i_updatedAt = Some now\<rparr>
      in (s\<lparr>inventory := inventory s @ [newInv], inventory_seq := Suc (inventory_seq s)\<rparr>,
          newInv))"

definition updateInventory ::
  "db \<Rightarrow> nat \<Rightarrow> inventory_field list \<Rightarrow> timestamp \<Rightarrow> db \<times> inventory option" where
  "updateInventory s ident inv' now =
     (let assignments = inv' @ [I_updatedAt (Some now)];
          returning = map (merge_inventory assignments) (filter (\<lambda>i. i_id i = ident) (inventory s))
      in (s\<lparr>inventory :=
              map (\<lambda>i. if i_id i = ident then merge_inventory assignments i else i) (inventory s)\<rparr>,
          first_row returning))"

definition deleteInventory :: "db \<Rightarrow> nat \<Rightarrow> db \<times> bool" where
  "deleteInventory s ident =
     (let result = filter (\<lambda>i. i_id i = ident) (inventory s)
      in (s\<lparr>inventory := filter (\<lambda>i. i_id i \<noteq> ident) (inventory s)\<rparr>, length result > 0))"

definition getInventoryByProduct :: "db \<Rightarrow> nat \<Rightarrow> inventory list" where
  "getInventoryByProduct s productId = filter (\<lambda>i. i_productId i = productId) (inventory s)"

definition getInventoryByWarehouse :: "db \<Rightarrow> string \<Rightarrow> inventory list" where
  "getInventoryByWarehouse s warehouseId = filter (\<lambda>i. i_warehouseId i = warehouseId) (inventory s)"

definition getAllInventory :: "db \<Rightarrow> inventory list" where
  "getAllInventory s = inventory s"

definition getInventoryByProductAndWarehouse :: "db \<Rightarrow> nat \<Rightarrow> string \<Rightarrow> inventory option" where
  "getInventoryByProductAndWarehouse s productId warehouseId =
     first_row (take 1
       (filter (\<lambda>i. i_productId i = productId \<and> i_warehouseId i = warehouseId) (inventory s)))"

subsection \<open>JavaScript numbers\<close>

text \<open>
  A JavaScript number is an IEEE double: 53 significant bits. \<open>excess_bits a\<close> is the number
  of low bits of \<open>a\<close> beyond the 53 a double keeps, and \<open>round_double x\<close> is the whole
  number that the double nearest to \<open>x\<close> holds, a tie going to the even significand.
  \<open>Number(x)\<close> converts a stored or submitted quantity to a double, and \<open>+\<close> on two doubles
  is the exact sum, rounded. The exponent range of a double (magnitudes of \<open>2^1024\<close> and
  more, which are \<open>Infinity\<close>) is not modelled.
\<close>

function excess_bits :: "nat \<Rightarrow> nat" where
  "excess_bits a = (if a < 2 ^ 53 then 0 else Suc (excess_bits (a div 2)))"
  by pat_completeness auto
termination
  by (relation "measure (\<lambda>a. a)") auto

declare excess_bits.simps [simp del]

definition round_double :: "int \<Rightarrow> int" where
  "round_double x =
     (let a = nat \<bar>x\<bar>; k = excess_bits a; q = a div 2 ^ k; r = a mod 2 ^ k
      in if k = 0 then x
         else if 2 * r < 2 ^ k \<or> (2 * r = 2 ^ k \<and> even q) then sgn x * int (q * 2 ^ k)
         else sgn x * int ((q + 1) * 2 ^ k))"

definition Number :: "int \<Rightarrow> int" where
  "Number x = round_double x"

definition plus_double :: "int \<Rightarrow> int \<Rightarrow> int" where
  "plus_double a b = round_double (a + b)"

subsection \<open>The stock-movement ledger and its applier\<close>

definition createStockMovement ::
  "db \<Rightarrow> insertStockMovement \<Rightarrow> timestamp \<Rightarrow> db \<times> stockMovement" where
  "createStockMovement s movement now =
     (let newMovement = \<lparr>m_id = stockMovements_seq s, m_productId = im_productId movement,
                         m_warehouseId = im_warehouseId movement,
                         m_direction = im_direction movement,
                         m_quantity = im_quantity movement, m_createdAt = now\<rparr>;
          s1 = s\<lparr>stockMovements := stockMovements s @ [newMovement],
                 stockMovements_seq := Suc (stockMovements_seq s)\<rparr>;
          existingInventory =
            getInventoryByProductAndWarehouse s1 (im_productId movement) (im_warehouseId movement)
      in (case existingInventory of
            Some existing \<Rightarrow>
              (let quantityChange =
                     (if im_direction movement = ''IN'' then Number (im_quantity movement)
                      else - Number (im_quantity movement))
               in (fst (updateInventory s1 (i_id existing)
                          [I_quantity (plus_double (Number (i_quantity existing)) quantityChange)]
                          now),
                   newMovement))
          | None \<Rightarrow>
              (if im_direction movement = ''IN'' then
                 (fst (createInventory s1
                         \<lparr>ii_productId = im_productId movement,
                          ii_warehouseId = im_warehouseId movement,
                          ii_quantity = im_quantity movement, ii_reservedQuantity = 0,
                          ii_location = None, ii_lastCountDate = None\<rparr> now),
                  newMovement)
               else (s1, newMovement))))"

text \<open>
  The three reads of the ledger, each with the store it leaves behind. A method that issues one
  \<open>select\<close> statement computes its answer from the store and leaves the store as it is.
\<close>

definition db_select :: "db \<Rightarrow> (db \<Rightarrow> 'a) \<Rightarrow> db \<times> 'a" where
  "db_select s answer = (s, answer s)"

definition getStockMovementsByProduct :: "db \<Rightarrow> nat \<Rightarrow> db \<times> stockMovement list" where
  "getStockMovementsByProduct s productId =
     db_select s (\<lambda>s. order_by_desc m_createdAt
                         (filter (\<lambda>m. m_productId m = productId) (stockMovements s)))"

definition getStockMovementsByWarehouse :: "db \<Rightarrow> string \<Rightarrow> db \<times> stockMovement list" where
  "getStockMovementsByWarehouse s warehouseId =
     db_select s (\<lambda>s. order_by_desc m_createdAt
                         (filter (\<lambda>m. m_warehouseId m = warehouseId) (stockMovements s)))"

text \<open>
  The parameter \<open>limit\<close> is optional and defaults to 10. The method passes it to \<open>.limit\<close>
  unchecked; a negative count bounds nothing, and the answer is the whole ledger.
\<close>

definition getRecentStockMovements :: "db \<Rightarrow> int option \<Rightarrow> db \<times> stockMovement list" where
  "getRecentStockMovements s limit =
     (let n = (case limit of None \<Rightarrow> 10 | Some l \<Rightarrow> l)
      in db_select s (\<lambda>s. if n < 0 then order_by_desc m_createdAt (stockMovements s)
                            else take (nat n) (order_by_desc m_createdAt (stockMovements s))))"

subsection \<open>Dashboard aggregates\<close>

text \<open>
  \<open>SELECT SUM(i.quantity * p.cost) FROM inventory i JOIN products p ON i.product_id = p.id
  WHERE p.deleted_at IS NULL\<close>; then \<open>total_value || 0\<close>.
\<close>

definition inventoryValueRows :: "db \<Rightarrow> int option list" where
  "inventoryValueRows s =
     concat (map (\<lambda>i. map (\<lambda>p. sql_times (Some (i_quantity i)) (p_cost p))
                         (filter (\<lambda>p. i_productId i = p_id p \<and> p_deletedAt p = None) (products s)))
                 (inventory s))"

definition getInventoryValue :: "db \<Rightarrow> int" where
  "getInventoryValue s =
     (case sql_sum (inventoryValueRows s) of None \<Rightarrow> 0 | Some v \<Rightarrow> if v = 0 then 0 else v)"

text \<open>
  \<open>SELECT p.*, i.* FROM products p JOIN inventory i ON p.id = i.product_id
  WHERE p.deleted_at IS NULL AND i.quantity <= p.reorder_point ORDER BY p.name\<close>.
\<close>

definition lowStockRows :: "db \<Rightarrow> (product \<times> inventory) list" where
  "lowStockRows s =
     sort_key (\<lambda>row. p_name (fst row))
       (concat (map (\<lambda>p. map (\<lambda>i. (p, i))
                            (filter (\<lambda>i. p_id p = i_productId i \<and> p_deletedAt p = None \<and>
                                         is_true (sql_le (Some (i_quantity i)) (p_reorderPoint p)))
                               (inventory s)))
                    (products s)))"

text \<open>
  The callback of \<open>result.rows.map\<close>. A result row is one object keyed by column name, so of two
  columns with the same name it holds the later one: \<open>row.id\<close>, \<open>row.created_at\<close> and
  \<open>row.updated_at\<close>, which the callback reads for the product and for the balance alike, are
  the columns of \<open>i.*\<close>.
\<close>

definition lowStockItem :: "product \<times> inventory \<Rightarrow> product \<times> inventory" where
  "lowStockItem row =
     (let p = fst row; i = snd row;
          row_id = i_id i; row_created_at = i_createdAt i; row_updated_at = i_updatedAt i
      in (\<lparr>p_id = row_id, p_sku = p_sku p, p_name = p_name p, p_description = p_description p,
           p_categoryId = p_categoryId p, p_uomId = p_uomId p, p_price = p_price p,
           p_cost = p_cost p, p_weight = p_weight p, p_length = p_length p,
           p_width = p_width p, p_height = p_height p, p_minStockLevel = p_minStockLevel p,
           p_maxStockLevel = p_maxStockLevel p, p_reorderPoint = p_reorderPoint p,
           p_leadTime = p_leadTime p, p_isActive = p_isActive p, p_imageUrl = p_imageUrl p,
           p_barcode = p_barcode p, p_createdAt = row_created_at, p_updatedAt = row_updated_at,
           p_deletedAt = p_deletedAt p, p_createdBy = p_createdBy p,
           p_updatedBy = p_updatedBy p, p_deletedBy = p_deletedBy p\<rparr>,
          \<lparr>i_id = row_id, i_productId = i_productId i, i_warehouseId = i_warehouseId i,
           i_quantity = i_quantity i, i_reservedQuantity = i_reservedQuantity i,
           i_location = i_location i, i_lastCountDate = i_lastCountDate i,
           i_createdAt = row_created_at, i_updatedAt = row_updated_at\<rparr>))"

definition getLowStockItems :: "db \<Rightarrow> (product \<times> inventory) list" where
  "getLowStockItems s = map lowStockItem (lowStockRows s)"

subsection \<open>Users, categories, units, warehouses, orders and order items\<close>

text \<open>
  The remaining methods all follow three shapes: an insert that returns the new row, an update
  by key that merges the given fields (stamping \<open>updatedAt\<close>, except for order items), and a
  delete by key, soft (a stamp on \<open>deletedAt\<close>) or physical.
\<close>

record insertEntity =
  ie_name :: string
  ie_rest :: "string \<rightharpoonup> string"

record insertUnitOfMeasure =
  iu_id :: string
  iu_name :: string
  iu_rest :: "string \<rightharpoonup> string"

record insertWarehouse =
  iw_id :: "string option"
  iw_name :: string
  iw_rest :: "string \<rightharpoonup> string"

record insertOrder =
  io_status :: string
  io_orderDate :: timestamp
  io_rest :: "string \<rightharpoonup> string"

record insertOrderItem =
  ioi_orderId :: nat
  ioi_rest :: "string \<rightharpoonup> string"

definition update_entities :: "'k \<Rightarrow> 'k entity_field list \<Rightarrow> 'k entity list \<Rightarrow> 'k entity list" where
  "update_entities ident assignments rows =
     map (\<lambda>r. if e_id r = ident then merge_entity assignments r else r) rows"

definition returning_entities :: "'k \<Rightarrow> 'k entity_field list \<Rightarrow> 'k entity list \<Rightarrow> 'k entity list" where
  "returning_entities ident assignments rows =
     map (merge_entity assignments) (filter (\<lambda>r. e_id r = ident) rows)"

definition createUser :: "db \<Rightarrow> insertEntity \<Rightarrow> timestamp \<Rightarrow> db \<times> nat entity" where
  "createUser s user now =
     (let newUser = \<lparr>e_id = users_seq s, e_name = ie_name user, e_rest = ie_rest user,
                     e_updatedAt = Some now, e_deletedAt = None\<rparr>
      in (s\<lparr>users := users s @ [newUser], users_seq := Suc (users_seq s)\<rparr>, newUser))"

definition updateUser :: "db \<Rightarrow> nat \<Rightarrow> nat entity_field list \<Rightarrow> timestamp \<Rightarrow> db \<times> nat entity option" where
  "updateUser s ident user now =
     (s\<lparr>users := update_entities ident (user @ [E_updatedAt (Some now)]) (users s)\<rparr>,
      first_row (returning_entities ident (user @ [E_updatedAt (Some now)]) (users s)))"

definition deleteUser :: "db \<Rightarrow> nat \<Rightarrow> timestamp \<Rightarrow> db \<times> bool" where
  "deleteUser s ident now =
     (s\<lparr>users := update_entities ident [E_deletedAt (Some now)] (users s)\<rparr>,
      first_row (returning_entities ident [E_deletedAt (Some now)] (users s)) \<noteq> None)"

definition createProductCategory :: "db \<Rightarrow> insertEntity \<Rightarrow> timestamp \<Rightarrow> db \<times> nat entity" where
  "createProductCategory s category now =
     (let newCategory = \<lparr>e_id = productCategories_seq s, e_name = ie_name category,
                         e_rest = ie_rest category, e_updatedAt = Some now, e_deletedAt = None\<rparr>
      in (s\<lparr>productCategories := productCategories s @ [newCategory],
            productCategories_seq := Suc (productCategories_seq s)\<rparr>, newCategory))"

definition updateProductCategory ::
  "db \<Rightarrow> nat \<Rightarrow> nat entity_field list \<Rightarrow> timestamp \<Rightarrow> db \<times> nat entity option" where
  "updateProductCategory s ident category now =
     (s\<lparr>productCategories :=
          update_entities ident (category @ [E_updatedAt (Some now)]) (productCategories s)\<rparr>,
      first_row (returning_entities ident (category @ [E_updatedAt (Some now)])
                   (productCategories s)))"

definition deleteProductCategory :: "db \<Rightarrow> nat \<Rightarrow> timestamp \<Rightarrow> db \<times> bool" where
  "deleteProductCategory s ident now =
     (s\<lparr>productCategories :=
          update_entities ident [E_deletedAt (Some now)] (productCategories s)\<rparr>,
      first_row (returning_entities ident [E_deletedAt (Some now)] (productCategories s)) \<noteq> None)"

definition createUnitOfMeasure ::
  "db \<Rightarrow> insertUnitOfMeasure \<Rightarrow> timestamp \<Rightarrow> db \<times> string entity" where
  "createUnitOfMeasure s uom now =
     (let newUom = \<lparr>e_id = iu_id uom, e_name = iu_name uom, e_rest = iu_rest uom,
                    e_updatedAt = Some now, e_deletedAt = None\<rparr>
      in (s\<lparr>unitsOfMeasure := unitsOfMeasure s @ [newUom]\<rparr>, newUom))"

definition updateUnitOfMeasure ::
  "db \<Rightarrow> string \<Rightarrow> string entity_field list \<Rightarrow> timestamp \<Rightarrow> db \<times> string entity option" where
  "updateUnitOfMeasure s ident uom now =
     (s\<lparr>unitsOfMeasure :=
          update_entities ident (uom @ [E_updatedAt (Some now)]) (unitsOfMeasure s)\<rparr>,
      first_row (returning_entities ident (uom @ [E_updatedAt (Some now)]) (unitsOfMeasure s)))"

definition deleteUnitOfMeasure :: "db \<Rightarrow> string \<Rightarrow> timestamp \<Rightarrow> db \<times> bool" where
  "deleteUnitOfMeasure s ident now =
     (s\<lparr>unitsOfMeasure := update_entities ident [E_deletedAt (Some now)] (unitsOfMeasure s)\<rparr>,
      first_row (returning_entities ident [E_deletedAt (Some now)] (unitsOfMeasure s)) \<noteq> None)"

text \<open>
  \<open>createWarehouse\<close> takes the key from the data or, when that is missing or empty, a random
  token: \<open>data.id || Math.random()...\<close>. The token is the argument \<open>token\<close>.
\<close>

definition createWarehouse ::
  "db \<Rightarrow> insertWarehouse \<Rightarrow> string \<Rightarrow> timestamp \<Rightarrow> db \<times> string entity" where
  "createWarehouse s data token now =
     (let result = \<lparr>e_id = (case iw_id data of None \<Rightarrow> token
                              | Some k \<Rightarrow> if k = [] then token else k),
                    e_name = iw_name data, e_rest = iw_rest data,
                    e_updatedAt = Some now, e_deletedAt = None\<rparr>
      in (s\<lparr>warehouses := warehouses s @ [result]\<rparr>, result))"

definition updateWarehouse ::
  "db \<Rightarrow> string \<Rightarrow> string entity_field list \<Rightarrow> timestamp \<Rightarrow> db \<times> string entity option" where
  "updateWarehouse s ident data now =
     (s\<lparr>warehouses := update_entities ident (data @ [E_updatedAt (Some now)]) (warehouses s)\<rparr>,
      first_row (returning_entities ident (data @ [E_updatedAt (Some now)]) (warehouses s)))"

definition deleteWarehouse :: "db \<Rightarrow> string \<Rightarrow> timestamp \<Rightarrow> db \<times> bool" where
  "deleteWarehouse s ident now =
     (s\<lparr>warehouses := update_entities ident [E_deletedAt (Some now)] (warehouses s)\<rparr>,
      length (filter (\<lambda>r. e_id r = ident) (warehouses s)) > 0)"

definition createOrder :: "db \<Rightarrow> insertOrder \<Rightarrow> timestamp \<Rightarrow> db \<times> order" where
  "createOrder s order' now =
     (let newOrder = \<lparr>o_id = orders_seq s, o_status = io_status order',
                      o_orderDate = io_orderDate order', o_rest = io_rest order',
                      o_updatedAt = Some now\<rparr>
      in (s\<lparr>orders := orders s @ [newOrder], orders_seq := Suc (orders_seq s)\<rparr>, newOrder))"

definition updateOrder ::
  "db \<Rightarrow> nat \<Rightarrow> order_field list \<Rightarrow> timestamp \<Rightarrow> db \<times> order option" where
  "updateOrder s ident order' now =
     (let assignments = order' @ [O_updatedAt (Some now)]
      in (s\<lparr>orders := map (\<lambda>r. if o_id r = ident then merge_order assignments r else r) (orders s)\<rparr>,
          first_row (map (merge_order assignments) (filter (\<lambda>r. o_id r = ident) (orders s)))))"

definition deleteOrder :: "db \<Rightarrow> nat \<Rightarrow> db \<times> bool" where
  "deleteOrder s ident =
     (let s1 = s\<lparr>orderItems := filter (\<lambda>r. oi_orderId r \<noteq> ident) (orderItems s)\<rparr>;
          result = filter (\<lambda>r. o_id r = ident) (orders s1)
      in (s1\<lparr>orders := filter (\<lambda>r. o_id r \<noteq> ident) (orders s1)\<rparr>, length result > 0))"

definition createOrderItem :: "db \<Rightarrow> insertOrderItem \<Rightarrow> db \<times> orderItem" where
  "createOrderItem s item =
     (let newItem = \<lparr>oi_id = orderItems_seq s, oi_orderId = ioi_orderId item,
                     oi_rest = ioi_rest item\<rparr>
      in (s\<lparr>orderItems := orderItems s @ [newItem], orderItems_seq := Suc (orderItems_seq s)\<rparr>,
          newItem))"

definition updateOrderItem :: "db \<Rightarrow> nat \<Rightarrow> orderItem_field list \<Rightarrow> db \<times> orderItem option" where
  "updateOrderItem s ident item =
     (s\<lparr>orderItems := map (\<lambda>r. if oi_id r = ident then merge_orderItem item r else r) (orderItems s)\<rparr>,
      first_row (map (merge_orderItem item) (filter (\<lambda>r. oi_id r = ident) (orderItems s))))"

definition deleteOrderItem :: "db \<Rightarrow> nat \<Rightarrow> db \<times> bool" where
  "deleteOrderItem s ident =
     (let result = filter (\<lambda>r. oi_id r = ident) (orderItems s)
      in (s\<lparr>orderItems := filter (\<lambda>r. oi_id r \<noteq> ident) (orderItems s)\<rparr>, length result > 0))"

subsection \<open>The storage contract as a transition system\<close>

text \<open>
  One constructor per method of \<open>IStorage\<close> and of \<open>DatabaseStorage\<close>. A method that issues only
  \<open>select\<close> statements is a \<open>query\<close>; \<open>step\<close> gives the store after a call made at time
  \<open>now\<close>.
\<close>

datatype query =
    GetUser nat
  | GetUserByUsername string
  | GetAllUsers
  | GetProduct nat
  | GetProductBySku string
  | GetAllProducts
  | SearchProducts string
  | GetProductCategory nat
  | GetAllProductCategories
  | GetUnitOfMeasure string
  | GetAllUnitsOfMeasure
  | GetInventory nat
  | GetInventoryByProduct nat
  | GetInventoryByWarehouse string
  | GetAllInventory
  | GetStockMovementsByProduct nat
  | GetStockMovementsByWarehouse string
  | GetRecentStockMovements "int option"
  | GetOrder nat
  | GetAllOrders
  | GetOrdersByStatus string
  | GetRecentOrders "int option"
  | GetOrderItems nat
  | GetWarehouse string
  | GetAllWarehouses
  | GetClassType string
  | GetAllClassTypes
  | GetInventoryValue
  | GetLowStockItems
  | GetInventoryLevelsByCategory
  | GetOrderTrends

datatype op =
    Query query
  | CreateUser insertEntity
  | UpdateUser nat "nat entity_field list"
  | DeleteUser nat
  | CreateProduct insertProduct
  | UpdateProduct nat "product_field list"
  | DeleteProduct nat
  | CreateProductCategory insertEntity
  | UpdateProductCategory nat "nat entity_field list"
  | DeleteProductCategory nat
  | CreateUnitOfMeasure insertUnitOfMeasure
  | UpdateUnitOfMeasure string "string entity_field list"
  | DeleteUnitOfMeasure string
  | CreateInventory insertInventory
  | UpdateInventory nat "inventory_field list"
  | DeleteInventory nat
  | CreateStockMovement insertStockMovement
  | CreateOrder insertOrder
  | UpdateOrder nat "order_field list"
  | DeleteOrder nat
  | CreateOrderItem insertOrderItem
  | UpdateOrderItem nat "orderItem_field list"
  | DeleteOrderItem nat
  | CreateWarehouse insertWarehouse string
  | UpdateWarehouse string "string entity_field list"
  | DeleteWarehouse string

fun step :: "timestamp \<Rightarrow> op \<Rightarrow> db \<Rightarrow> db" where
  "step now (Query q) s = s"
| "step now (CreateUser user) s = fst (createUser s user now)"
| "step now (UpdateUser ident user) s = fst (updateUser s ident user now)"
| "step now (DeleteUser ident) s = fst (deleteUser s ident now)"
| "step now (CreateProduct product) s = fst (createProduct s product now)"
| "step now (UpdateProduct ident product) s = fst (updateProduct s ident product now)"
| "step now (DeleteProduct ident) s = fst (deleteProduct s ident now)"
| "step now (CreateProductCategory category) s = fst (createProductCategory s category now)"
| "step now (UpdateProductCategory ident category) s =
     fst (updateProductCategory s ident category now)"
| "step now (DeleteProductCategory ident) s = fst (deleteProductCategory s ident now)"
| "step now (CreateUnitOfMeasure uom) s = fst (createUnitOfMeasure s uom now)"
| "step now (UpdateUnitOfMeasure ident uom) s = fst (updateUnitOfMeasure s ident uom now)"
| "step now (DeleteUnitOfMeasure ident) s = fst (deleteUnitOfMeasure s ident now)"
| "step now (CreateInventory inv') s = fst (createInventory s inv' now)"
| "step now (UpdateInventory ident inv') s = fst (updateInventory s ident inv' now)"
| "step now (DeleteInventory ident) s = fst (deleteInventory s ident)"
| "step now (CreateStockMovement movement) s = fst (createStockMovement s movement now)"
| "step now (CreateOrder order') s = fst (createOrder s order' now)"
| "step now (UpdateOrder ident order') s = fst (updateOrder s ident order' now)"
| "step now (DeleteOrder ident) s = fst (deleteOrder s ident)"
| "step now (CreateOrderItem item) s = fst (createOrderItem s item)"
| "step now (UpdateOrderItem ident item) s = fst (updateOrderItem s ident item)"
| "step now (DeleteOrderItem ident) s = fst (deleteOrderItem s ident)"
| "step now (CreateWarehouse data token) s = fst (createWarehouse s data token now)"
| "step now (UpdateWarehouse ident data) s = fst (updateWarehouse s ident data now)"
| "step now (DeleteWarehouse ident) s = fst (deleteWarehouse s ident now)"

text \<open>A run is a list of calls, each with the time at which it is made.\<close>

fun run :: "(timestamp \<times> op) list \<Rightarrow> db \<Rightarrow> db" where
  "run [] s = s"
| "run (call # calls) s = run calls (step (fst call) (snd call) s)"

definition appended :: "(timestamp \<times> op) list \<Rightarrow> nat" where
  "appended calls = length (filter (\<lambda>call. case snd call of CreateStockMovement m \<Rightarrow> True | _ \<Rightarrow> False) calls)"

subsection \<open>Runs of the ledger applier\<close>




definition balanceRows :: "db \<Rightarrow> nat \<Rightarrow> string \<Rightarrow> inventory list" where
  "balanceRows s p w = filter (\<lambda>i. i_productId i = p \<and> i_warehouseId i = w) (inventory s)"

text \<open>
  A safe integer is one of magnitude at most \<open>2^53 - 1\<close>, JavaScript's
  \<open>Number.MAX_SAFE_INTEGER\<close>. A list of movements is a safe run from a balance when that
  balance, every quantity, and every balance that the movements lead to in turn are safe
  integers.
\<close>

definition safe_integer :: "int \<Rightarrow> bool" where
  "safe_integer x = (\<bar>x\<bar> \<le> 9007199254740991)"



subsection \<open>Notions of the specification\<close>

text \<open>The store in which no product row carries the key \<open>ident\<close>.\<close>

definition without_product :: "db \<Rightarrow> nat \<Rightarrow> db" where
  "without_product s ident = s\<lparr>products := filter (\<lambda>p. p_id p \<noteq> ident) (products s)\<rparr>"

text \<open>
  The characters with a meaning in a \<open>LIKE\<close> pattern, a query that has none of them, and
  containment as a substring up to the case of ASCII letters.
\<close>

definition like_special :: "char \<Rightarrow> bool" where
  "like_special c = (c = CHR ''%'' \<or> c = CHR ''_'' \<or> c = CHR 0x5C)"

definition plain_query :: "string \<Rightarrow> bool" where
  "plain_query q = list_all (\<lambda>c. \<not> like_special c) q"

definition ci_contains :: "string \<Rightarrow> string \<Rightarrow> bool" where
  "ci_contains text q = sublist (lower q) (lower text)"

text \<open>Newest first: creation timestamps never increase along the list.\<close>

definition newest_first :: "stockMovement list \<Rightarrow> bool" where
  "newest_first ms = sorted_wrt (\<lambda>a b. m_createdAt b \<le> m_createdAt a) ms"

text \<open>
  The value of one balance row: its quantity times the cost of the product its product key
  refers to, when that product is not deleted; nothing otherwise, and nothing when the cost is
  unset.
\<close>

definition balance_value :: "db \<Rightarrow> inventory \<Rightarrow> int" where
  "balance_value s i =
     (case find (\<lambda>p. p_id p = i_productId i) (products s) of
        None \<Rightarrow> 0
      | Some p \<Rightarrow>
          (if p_deletedAt p = None
           then (case p_cost p of None \<Rightarrow> 0 | Some c \<Rightarrow> i_quantity i * c)
           else 0))"

definition total_balance_value :: "db \<Rightarrow> int" where
  "total_balance_value s = sum_list (map (balance_value s) (inventory s))"

subsection \<open>Example stores\<close>

definition empty_db :: db where
  "empty_db = \<lparr>users = [], users_seq = 1, products = [], products_seq = 1,
     productCategories = [], productCategories_seq = 1, unitsOfMeasure = [],
     inventory = [], inventory_seq = 1, stockMovements = [], stockMovements_seq = 1,
     orders = [], orders_seq = 1, orderItems = [], orderItems_seq = 1,
     warehouses = [], classTypes = []\<rparr>"

definition movement :: "nat \<Rightarrow> string \<Rightarrow> string \<Rightarrow> int \<Rightarrow> insertStockMovement" where
  "movement p w d q = \<lparr>im_productId = p, im_warehouseId = w, im_direction = d, im_quantity = q\<rparr>"


definition widget :: product where
  "widget = \<lparr>p_id = 1, p_sku = ''X-100'', p_name = ''ABC Widget'', p_description = None,
     p_categoryId = None, p_uomId = None, p_price = Some 20, p_cost = Some 5,
     p_weight = None, p_length = None, p_width = None, p_height = None,
     p_minStockLevel = None, p_maxStockLevel = None, p_reorderPoint = Some 10,
     p_leadTime = None, p_isActive = True, p_imageUrl = None, p_barcode = None,
     p_createdAt = Some 1, p_updatedAt = Some 1, p_deletedAt = None,
     p_createdBy = None, p_updatedBy = None, p_deletedBy = None\<rparr>"

definition catalog_db :: db where
  "catalog_db = empty_db\<lparr>products := [widget], products_seq := 2\<rparr>"

definition balance :: "nat \<Rightarrow> nat \<Rightarrow> int \<Rightarrow> inventory" where
  "balance ident productId quantity =
     \<lparr>i_id = ident, i_productId = productId, i_warehouseId = ''W1'', i_quantity = quantity,
      i_reservedQuantity = 0, i_location = None, i_lastCountDate = None,
      i_createdAt = Some 3, i_updatedAt = Some 3\<rparr>"

definition stocked_db :: db where
  "stocked_db = catalog_db\<lparr>inventory := [balance 7 1 7], inventory_seq := 8\<rparr>"

definition retired_db :: db where
  "retired_db = catalog_db\<lparr>products := [widget\<lparr>p_deletedAt := Some 9\<rparr>]\<rparr>"

definition unset_db :: db where
  "unset_db = catalog_db\<lparr>products := [widget\<lparr>p_reorderPoint := None\<rparr>],
                        inventory := [balance 7 1 (- 5)], inventory_seq := 8\<rparr>"

definition valued_db :: db where
  "valued_db = catalog_db\<lparr>products := [widget, widget\<lparr>p_id := 2, p_deletedAt := Some 9\<rparr>],
                         products_seq := 3,
                         inventory := [balance 7 1 7, balance 8 2 100], inventory_seq := 9\<rparr>"

definition entry :: "nat \<Rightarrow> nat \<Rightarrow> string \<Rightarrow> timestamp \<Rightarrow> stockMovement" where
  "entry ident productId warehouseId createdAt =
     \<lparr>m_id = ident, m_productId = productId, m_warehouseId = warehouseId,
      m_direction = ''IN'', m_quantity = 1, m_createdAt = createdAt\<rparr>"

definition ledger_db :: db where
  "ledger_db = empty_db\<lparr>stockMovements := [entry 1 1 ''W1'' 10, entry 2 2 ''W1'' 30,
                                              entry 3 1 ''W2'' 20],
                        stockMovements_seq := 4\<rparr>"

definition sample_run :: "(timestamp \<times> op) list" where
  "sample_run = [(40, DeleteProduct 1), (41, CreateStockMovement (movement 1 ''W1'' ''OUT'' 5)),
                 (42, UpdateInventory 7 [I_quantity 0]), (43, DeleteInventory 7)]"

subsection \<open>Merging a partial product\<close>

text \<open>
  What it means to merge the provided fields into a row, column by column and without reference
  to \<open>merge_product\<close>: \<open>given_f\<close> reads the value an assignment gives to column \<open>f\<close>, if it
  is an assignment to that column; \<open>provided\<close> is the last value the object literal gives to
  a column, or the old value when it gives none; \<open>merged\<close> is the row in which every column
  holds its provided value and \<open>updatedAt\<close> the time of the call.
\<close>

definition given_id :: "product_field \<Rightarrow> nat option" where
  "given_id a = (case a of P_id v \<Rightarrow> Some v | _ \<Rightarrow> None)"

definition given_sku :: "product_field \<Rightarrow> string option" where
  "given_sku a = (case a of P_sku v \<Rightarrow> Some v | _ \<Rightarrow> None)"

definition given_name :: "product_field \<Rightarrow> string option" where
  "given_name a = (case a of P_name v \<Rightarrow> Some v | _ \<Rightarrow> None)"

definition given_description :: "product_field \<Rightarrow> (string option) option" where
  "given_description a = (case a of P_description v \<Rightarrow> Some v | _ \<Rightarrow> None)"

definition given_categoryId :: "product_field \<Rightarrow> (nat option) option" where
  "given_categoryId a = (case a of P_categoryId v \<Rightarrow> Some v | _ \<Rightarrow> None)"

definition given_uomId :: "product_field \<Rightarrow> (string option) option" where
  "given_uomId a = (case a of P_uomId v \<Rightarrow> Some v | _ \<Rightarrow> None)"

definition given_price :: "product_field \<Rightarrow> (int option) option" where
  "given_price a = (case a of P_price v \<Rightarrow> Some v | _ \<Rightarrow> None)"

definition given_cost :: "product_field \<Rightarrow> (int option) option" where
  "given_cost a = (case a of P_cost v \<Rightarrow> Some v | _ \<Rightarrow> None)"

definition given_weight :: "product_field \<Rightarrow> (int option) option" where
  "given_weight a = (case a of P_weight v \<Rightarrow> Some v | _ \<Rightarrow> None)"

definition given_length :: "product_field \<Rightarrow> (int option) option" where
  "given_length a = (case a of P_length v \<Rightarrow> Some v | _ \<Rightarrow> None)"

definition given_width :: "product_field \<Rightarrow> (int option) option" where
  "given_width a = (case a of P_width v \<Rightarrow> Some v | _ \<Rightarrow> None)"

definition given_height :: "product_field \<Rightarrow> (int option) option" where
  "given_height a = (case a of P_height v \<Rightarrow> Some v | _ \<Rightarrow> None)"

definition given_minStockLevel :: "product_field \<Rightarrow> (int option) option" where
  "given_minStockLevel a = (case a of P_minStockLevel v \<Rightarrow> Some v | _ \<Rightarrow> None)"

definition given_maxStockLevel :: "product_field \<Rightarrow> (int option) option" where
  "given_maxStockLevel a = (case a of P_maxStockLevel v \<Rightarrow> Some v | _ \<Rightarrow> None)"

definition given_reorderPoint :: "product_field \<Rightarrow> (int option) option" where
  "given_reorderPoint a = (case a of P_reorderPoint v \<Rightarrow> Some v | _ \<Rightarrow> None)"

definition given_leadTime :: "product_field \<Rightarrow> (int option) option" where
  "given_leadTime a = (case a of P_leadTime v \<Rightarrow> Some v | _ \<Rightarrow> None)"

definition given_isActive :: "product_field \<Rightarrow> bool option" where
  "given_isActive a = (case a of P_isActive v \<Rightarrow> Some v | _ \<Rightarrow> None)"

definition given_imageUrl :: "product_field \<Rightarrow> (string option) option" where
  "given_imageUrl a = (case a of P_imageUrl v \<Rightarrow> Some v | _ \<Rightarrow> None)"

definition given_barcode :: "product_field \<Rightarrow> (string option) option" where
  "given_barcode a = (case a of P_barcode v \<Rightarrow> Some v | _ \<Rightarrow> None)"

definition given_createdAt :: "product_field \<Rightarrow> (timestamp option) option" where
  "given_createdAt a = (case a of P_createdAt v \<Rightarrow> Some v | _ \<Rightarrow> None)"

definition given_updatedAt :: "product_field \<Rightarrow> (timestamp option) option" where
  "given_updatedAt a = (case a of P_updatedAt v \<Rightarrow> Some v | _ \<Rightarrow> None)"

definition given_deletedAt :: "product_field \<Rightarrow> (timestamp option) option" where
  "given_deletedAt a = (case a of P_deletedAt v \<Rightarrow> Some v | _ \<Rightarrow> None)"

definition given_createdBy :: "product_field \<Rightarrow> (nat option) option" where
  "given_createdBy a = (case a of P_createdBy v \<Rightarrow> Some v | _ \<Rightarrow> None)"

definition given_updatedBy :: "product_field \<Rightarrow> (nat option) option" where
  "given_updatedBy a = (case a of P_updatedBy v \<Rightarrow> Some v | _ \<Rightarrow> None)"

definition given_deletedBy :: "product_field \<Rightarrow> (nat option) option" where
  "given_deletedBy a = (case a of P_deletedBy v \<Rightarrow> Some v | _ \<Rightarrow> None)"

definition provided :: "(product_field \<Rightarrow> 'a option) \<Rightarrow> product_field list \<Rightarrow> 'a \<Rightarrow> 'a" where
  "provided column patch old =
     (case non_null (map column patch) of [] \<Rightarrow> old | v # vs \<Rightarrow> last (v # vs))"

definition merged :: "product_field list \<Rightarrow> timestamp \<Rightarrow> product \<Rightarrow> product" where
  "merged patch now p =
     \<lparr>p_id = provided given_id patch (p_id p),
      p_sku = provided given_sku patch (p_sku p),
      p_name = provided given_name patch (p_name p),
      p_description = provided given_description patch (p_description p),
      p_categoryId = provided given_categoryId patch (p_categoryId p),
      p_uomId = provided given_uomId patch (p_uomId p),
      p_price = provided given_price patch (p_price p),
      p_cost = provided given_cost patch (p_cost p),
      p_weight = provided given_weight patch (p_weight p),
      p_length = provided given_length patch (p_length p),
      p_width = provided given_width patch (p_width p),
      p_height = provided given_height patch (p_height p),
      p_minStockLevel = provided given_minStockLevel patch (p_minStockLevel p),
      p_maxStockLevel = provided given_maxStockLevel patch (p_maxStockLevel p),
      p_reorderPoint = provided given_reorderPoint patch (p_reorderPoint p),
      p_leadTime = provided given_leadTime patch (p_leadTime p),
      p_isActive = provided given_isActive patch (p_isActive p),
      p_imageUrl = provided given_imageUrl patch (p_imageUrl p),
      p_barcode = provided given_barcode patch (p_barcode p),
      p_createdAt = provided given_createdAt patch (p_createdAt p),
      p_updatedAt = Some now,
      p_deletedAt = provided given_deletedAt patch (p_deletedAt p),
      p_createdBy = provided given_createdBy patch (p_createdBy p),
      p_updatedBy = provided given_updatedBy patch (p_updatedBy p),
      p_deletedBy = provided given_deletedBy patch (p_deletedBy p)\<rparr>"

section \<open>The ledger applier\<close>

lemma first_row_take1 [simp]: "first_row (take (Suc 0) xs) = first_row xs"
  by (cases xs) simp_all

lemma getInv_eq: "getInventoryByProductAndWarehouse s p w = first_row (balanceRows s p w)"
  by (simp add: getInventoryByProductAndWarehouse_def balanceRows_def)

lemma first_row_None: "first_row xs = None \<longleftrightarrow> xs = []"
  by (cases xs) simp_all

lemma filter_map_preserve:
  assumes "\<And>x. P (f x) = P x"
  shows "filter P (map (\<lambda>x. if Q x then f x else x) xs) = map (\<lambda>x. if Q x then f x else x) (filter P xs)"
  using assms by (induction xs) auto

lemma csm_ledger:
  "stockMovements (fst (createStockMovement s m now)) =
     stockMovements s @ [\<lparr>m_id = stockMovements_seq s, m_productId = im_productId m,
        m_warehouseId = im_warehouseId m, m_direction = im_direction m,
        m_quantity = im_quantity m, m_createdAt = now\<rparr>]"
  by (simp add: createStockMovement_def Let_def getInventoryByProductAndWarehouse_def
      updateInventory_def createInventory_def split: option.splits)



text \<open>On safe integers the conversion is the identity, and a sum that is safe is exact.\<close>

lemma round_double_safe: "safe_integer x \<Longrightarrow> round_double x = x"
proof -
  assume "safe_integer x"
  then have "nat \<bar>x\<bar> < 2 ^ 53" by (simp add: safe_integer_def)
  then have "excess_bits (nat \<bar>x\<bar>) = 0" by (subst excess_bits.simps) simp
  then show ?thesis by (simp add: round_double_def Let_def)
qed

lemma Number_safe: "safe_integer x \<Longrightarrow> Number x = x"
  by (simp add: Number_def round_double_safe)

lemma plus_double_safe: "safe_integer (a + b) \<Longrightarrow> plus_double a b = a + b"
  by (simp add: plus_double_def round_double_safe)




lemma csm_fresh_out:
  assumes "balanceRows s p w = []" "im_productId m = p" "im_warehouseId m = w" "im_direction m \<noteq> ''IN''"
  shows "inventory (fst (createStockMovement s m now)) = inventory s"
  using assms
  by (simp add: createStockMovement_def Let_def getInv_eq balanceRows_def)






text \<open>
  Claim C2. When the pair of an \<open>OUT\<close> movement has no balance row, \<open>createStockMovement\<close>
  appends the returned entry to the ledger and leaves the balance table as it was: no row is
  created, none is changed, and the lookup for the pair still finds nothing.
\<close>

theorem out_without_balance_only_appends:
  assumes "getInventoryByProductAndWarehouse s (im_productId m) (im_warehouseId m) = None"
    and "im_direction m = ''OUT''"
  shows "stockMovements (fst (createStockMovement s m now)) =
           stockMovements s @ [snd (createStockMovement s m now)] \<and>
         m_productId (snd (createStockMovement s m now)) = im_productId m \<and>
         m_warehouseId (snd (createStockMovement s m now)) = im_warehouseId m \<and>
         m_direction (snd (createStockMovement s m now)) = ''OUT'' \<and>
         m_quantity (snd (createStockMovement s m now)) = im_quantity m \<and>
         inventory (fst (createStockMovement s m now)) = inventory s \<and>
         getInventoryByProductAndWarehouse (fst (createStockMovement s m now))
           (im_productId m) (im_warehouseId m) = None"
  using assms
  by (simp add: createStockMovement_def Let_def getInventoryByProductAndWarehouse_def)

theorem out_without_balance_only_appends_witness:
  "stockMovements (fst (createStockMovement empty_db (movement 1 ''W1'' ''OUT'' 5) 100)) =
     [\<lparr>m_id = 1, m_productId = 1, m_warehouseId = ''W1'', m_direction = ''OUT'',
       m_quantity = 5, m_createdAt = 100\<rparr>] \<and>
   inventory (fst (createStockMovement empty_db (movement 1 ''W1'' ''OUT'' 5) 100)) = [] \<and>
   getInventoryByProductAndWarehouse
     (fst (createStockMovement empty_db (movement 1 ''W1'' ''OUT'' 5) 100)) 1 ''W1'' = None"
proof -
  have fresh: "getInventoryByProductAndWarehouse empty_db
      (im_productId (movement 1 ''W1'' ''OUT'' 5)) (im_warehouseId (movement 1 ''W1'' ''OUT'' 5)) = None"
    by (simp add: getInventoryByProductAndWarehouse_def empty_db_def)
  have dir: "im_direction (movement 1 ''W1'' ''OUT'' 5) = ''OUT''"
    by (simp add: movement_def)
  from out_without_balance_only_appends[OF fresh dir, of 100]
  show ?thesis
    by (simp add: movement_def empty_db_def createStockMovement_def Let_def
        getInventoryByProductAndWarehouse_def)
qed

section \<open>Soft deletion of products\<close>

lemma deleteProduct_products:
  "products (fst (deleteProduct s ident now)) =
     map (\<lambda>p. if p_id p = ident then p\<lparr>p_deletedAt := Some now\<rparr> else p) (products s)"
  by (simp add: deleteProduct_def Let_def merge_product_def cong: if_cong)

lemma products_without:
  "products (without_product s ident) = filter (\<lambda>p. p_id p \<noteq> ident) (products s)"
  by (simp add: without_product_def)

lemma filter_live_after_delete:
  assumes "\<And>p t. P (p\<lparr>p_deletedAt := t\<rparr>) = P p"
  shows "filter (\<lambda>p. P p \<and> p_deletedAt p = None)
      (map (\<lambda>p. if p_id p = ident then p\<lparr>p_deletedAt := Some now\<rparr> else p) ps) =
    filter (\<lambda>p. P p \<and> p_deletedAt p = None) (filter (\<lambda>p. p_id p \<noteq> ident) ps)"
  by (induction ps) (auto simp: assms)

lemma filter_live_after_delete':
  assumes "\<And>p t. P (p\<lparr>p_deletedAt := t\<rparr>) = P p"
  shows "filter (\<lambda>p. p_deletedAt p = None \<and> P p)
      (map (\<lambda>p. if p_id p = ident then p\<lparr>p_deletedAt := Some now\<rparr> else p) ps) =
    filter (\<lambda>p. p_deletedAt p = None \<and> P p) (filter (\<lambda>p. p_id p \<noteq> ident) ps)"
  by (induction ps) (auto simp: assms)

lemma filter_live_after_delete'':
  "filter (\<lambda>p. p_deletedAt p = None)
      (map (\<lambda>p. if p_id p = ident then p\<lparr>p_deletedAt := Some now\<rparr> else p) ps) =
    filter (\<lambda>p. p_deletedAt p = None) (filter (\<lambda>p. p_id p \<noteq> ident) ps)"
  by (induction ps) auto

lemma getProduct_after_delete:
  "getProduct (fst (deleteProduct s ident now)) k = getProduct (without_product s ident) k"
proof -
  have "filter (\<lambda>p. p_id p = k \<and> p_deletedAt p = None)
      (map (\<lambda>p. if p_id p = ident then p\<lparr>p_deletedAt := Some now\<rparr> else p) (products s)) =
    filter (\<lambda>p. p_id p = k \<and> p_deletedAt p = None) (filter (\<lambda>p. p_id p \<noteq> ident) (products s))"
    by (rule filter_live_after_delete) simp
  then show ?thesis
    by (simp only: getProduct_def deleteProduct_products products_without)
qed

lemma getProductBySku_after_delete:
  "getProductBySku (fst (deleteProduct s ident now)) sku = getProductBySku (without_product s ident) sku"
proof -
  have "filter (\<lambda>p. p_sku p = sku \<and> p_deletedAt p = None)
      (map (\<lambda>p. if p_id p = ident then p\<lparr>p_deletedAt := Some now\<rparr> else p) (products s)) =
    filter (\<lambda>p. p_sku p = sku \<and> p_deletedAt p = None) (filter (\<lambda>p. p_id p \<noteq> ident) (products s))"
    by (rule filter_live_after_delete) simp
  then show ?thesis
    by (simp only: getProductBySku_def deleteProduct_products products_without)
qed

lemma getAllProducts_after_delete:
  "getAllProducts (fst (deleteProduct s ident now)) = getAllProducts (without_product s ident)"
  by (simp only: getAllProducts_def deleteProduct_products products_without
      filter_live_after_delete'')

lemma searchProducts_after_delete:
  "searchProducts (fst (deleteProduct s ident now)) q = searchProducts (without_product s ident) q"
proof -
  have "filter (\<lambda>p. p_deletedAt p = None \<and>
                    (ilike (p_name p) (CHR ''%'' # q @ [CHR ''%'']) \<or>
                     ilike (p_sku p) (CHR ''%'' # q @ [CHR ''%''])))
      (map (\<lambda>p. if p_id p = ident then p\<lparr>p_deletedAt := Some now\<rparr> else p) (products s)) =
    filter (\<lambda>p. p_deletedAt p = None \<and>
                    (ilike (p_name p) (CHR ''%'' # q @ [CHR ''%'']) \<or>
                     ilike (p_sku p) (CHR ''%'' # q @ [CHR ''%'']))) (filter (\<lambda>p. p_id p \<noteq> ident) (products s))"
    by (rule filter_live_after_delete') simp
  then show ?thesis
    by (simp only: searchProducts_def deleteProduct_products products_without)
qed

lemma getInventoryValue_after_delete:
  "getInventoryValue (fst (deleteProduct s ident now)) = getInventoryValue (without_product s ident)"
proof -
  have live: "filter (\<lambda>p. i_productId i = p_id p \<and> p_deletedAt p = None)
      (map (\<lambda>p. if p_id p = ident then p\<lparr>p_deletedAt := Some now\<rparr> else p) (products s)) =
    filter (\<lambda>p. i_productId i = p_id p \<and> p_deletedAt p = None)
      (filter (\<lambda>p. p_id p \<noteq> ident) (products s))" for i
    by (rule filter_live_after_delete) simp
  have inv: "inventory (fst (deleteProduct s ident now)) = inventory s"
    "inventory (without_product s ident) = inventory s"
    by (simp_all add: deleteProduct_def without_product_def Let_def)
  have "inventoryValueRows (fst (deleteProduct s ident now)) =
      inventoryValueRows (without_product s ident)"
    by (simp only: inventoryValueRows_def deleteProduct_products products_without live inv)
  then show ?thesis by (simp only: getInventoryValue_def)
qed

lemma lowStock_concat_after_delete:
  "concat (map (\<lambda>p. map (\<lambda>i. (p, i)) (filter (\<lambda>i. p_id p = i_productId i \<and> p_deletedAt p = None \<and> Q p i) is))
       (map (\<lambda>p. if p_id p = ident then p\<lparr>p_deletedAt := Some now\<rparr> else p) ps)) =
   concat (map (\<lambda>p. map (\<lambda>i. (p, i)) (filter (\<lambda>i. p_id p = i_productId i \<and> p_deletedAt p = None \<and> Q p i) is))
       (filter (\<lambda>p. p_id p \<noteq> ident) ps))"
  by (induction ps) simp_all

lemma getLowStockItems_after_delete:
  "getLowStockItems (fst (deleteProduct s ident now)) = getLowStockItems (without_product s ident)"
proof -
  have inv: "inventory (fst (deleteProduct s ident now)) = inventory s"
    "inventory (without_product s ident) = inventory s"
    by (simp_all add: deleteProduct_def without_product_def Let_def)
  have "lowStockRows (fst (deleteProduct s ident now)) = lowStockRows (without_product s ident)"
    by (simp only: lowStockRows_def deleteProduct_products products_without inv
        lowStock_concat_after_delete)
  then show ?thesis by (simp only: getLowStockItems_def)
qed

lemma absent_getProduct:
  "ident \<notin> p_id ` set (products s) \<Longrightarrow> getProduct s ident = None"
proof -
  assume a: "ident \<notin> p_id ` set (products s)"
  have "filter (\<lambda>p. p_id p = ident \<and> p_deletedAt p = None) (products s) = []"
    using a by (auto simp: filter_empty_conv)
  then show ?thesis by (simp add: getProduct_def)
qed

lemma absent_lists:
  "ident \<notin> p_id ` set (products (without_product s ident))"
  by (auto simp: without_product_def)

text \<open>
  Claim C3. After \<open>deleteProduct\<close> of a key, the product reads cannot tell the key from one
  that never existed. \<open>getProduct\<close> returns nothing, as it does in the store without any row
  of that key; no product with the key is in \<open>getAllProducts\<close> or in \<open>searchProducts\<close> for
  any query; and every read of the product table (by key, by SKU, the list, the search, the
  inventory value, the low-stock list) returns the same answer as in the store from which the
  rows of that key are removed.
\<close>

theorem soft_deleted_reads_as_absent:
  "getProduct (fst (deleteProduct s ident now)) ident = None \<and>
   getProduct (without_product s ident) ident = None \<and>
   ident \<notin> p_id ` set (getAllProducts (fst (deleteProduct s ident now))) \<and>
   (\<forall>query. ident \<notin> p_id ` set (searchProducts (fst (deleteProduct s ident now)) query)) \<and>
   (\<forall>k. getProduct (fst (deleteProduct s ident now)) k = getProduct (without_product s ident) k) \<and>
   (\<forall>sku. getProductBySku (fst (deleteProduct s ident now)) sku =
       getProductBySku (without_product s ident) sku) \<and>
   getAllProducts (fst (deleteProduct s ident now)) = getAllProducts (without_product s ident) \<and>
   (\<forall>query. searchProducts (fst (deleteProduct s ident now)) query =
       searchProducts (without_product s ident) query) \<and>
   getInventoryValue (fst (deleteProduct s ident now)) =
     getInventoryValue (without_product s ident) \<and>
   getLowStockItems (fst (deleteProduct s ident now)) =
     getLowStockItems (without_product s ident)"
proof -
  have none: "getProduct (without_product s ident) ident = None"
    by (rule absent_getProduct) (rule absent_lists)
  have all: "ident \<notin> p_id ` set (getAllProducts (without_product s ident))"
    by (auto simp: getAllProducts_def without_product_def)
  have search: "ident \<notin> p_id ` set (searchProducts (without_product s ident) query)" for query
    by (auto simp: searchProducts_def without_product_def)
  show ?thesis
    using none all search
    by (simp add: getProduct_after_delete getProductBySku_after_delete
        getAllProducts_after_delete searchProducts_after_delete
        getInventoryValue_after_delete getLowStockItems_after_delete)
qed

theorem soft_deleted_reads_as_absent_witness:
  "getProduct catalog_db 1 = Some widget \<and>
   getProduct (fst (deleteProduct catalog_db 1 50)) 1 = None \<and>
   getAllProducts (fst (deleteProduct catalog_db 1 50)) = [] \<and>
   searchProducts (fst (deleteProduct catalog_db 1 50)) ''abc'' = []"
proof -
  have before: "getProduct catalog_db 1 = Some widget"
    by (simp add: getProduct_def catalog_db_def empty_db_def widget_def)
  have gone: "products (without_product catalog_db 1) = []"
    by (simp add: without_product_def catalog_db_def empty_db_def widget_def)
  have "getAllProducts (without_product catalog_db 1) = []"
    "searchProducts (without_product catalog_db 1) ''abc'' = []"
    using gone by (simp_all add: getAllProducts_def searchProducts_def)
  with before soft_deleted_reads_as_absent[of catalog_db 1 50]
  show ?thesis by simp
qed

section \<open>Searching products\<close>

lemma like_plain_cons:
  "\<not> like_special p \<Longrightarrow> like_match t (p # ps) = (case t of [] \<Rightarrow> False | c # cs \<Rightarrow> c = p \<and> like_match cs ps)"
  by (simp add: like_special_def)

lemma like_percent:
  "like_match t (CHR ''%'' # ps) = (like_match t ps \<or> (case t of [] \<Rightarrow> False | c # cs \<Rightarrow> like_match cs (CHR ''%'' # ps)))"
  by simp

lemma like_trailing_percent: "like_match t [CHR ''%'']"
  by (induction t) simp_all

lemma like_plain_prefix:
  "list_all (\<lambda>c. \<not> like_special c) q \<Longrightarrow> like_match t (q @ [CHR ''%'']) = prefix q t"
proof (induction q arbitrary: t)
  case Nil
  then show ?case using like_trailing_percent by simp
next
  case (Cons a q)
  then have a: "\<not> like_special a" and q: "list_all (\<lambda>c. \<not> like_special c) q" by simp_all
  show ?case
  proof (cases t)
    case Nil
    then show ?thesis using like_plain_cons[OF a] by simp
  next
    case (Cons c cs)
    then show ?thesis using like_plain_cons[OF a, of t "q @ [CHR ''%'']"] Cons.IH[OF q, of cs] by auto
  qed
qed

lemma like_leading_percent:
  "like_match t (CHR ''%'' # ps) = (\<exists>ys zs. t = ys @ zs \<and> like_match zs ps)"
proof (induction t)
  case Nil
  show ?case by (subst like_percent) simp
next
  case (Cons c cs)
  have "like_match (c # cs) (CHR ''%'' # ps) = (like_match (c # cs) ps \<or> like_match cs (CHR ''%'' # ps))"
    by (subst like_percent) simp
  also have "\<dots> = (like_match (c # cs) ps \<or> (\<exists>ys zs. cs = ys @ zs \<and> like_match zs ps))"
    using Cons.IH by simp
  also have "\<dots> = (\<exists>ys zs. c # cs = ys @ zs \<and> like_match zs ps)"
  proof
    assume "like_match (c # cs) ps \<or> (\<exists>ys zs. cs = ys @ zs \<and> like_match zs ps)"
    then show "\<exists>ys zs. c # cs = ys @ zs \<and> like_match zs ps"
    proof
      assume "like_match (c # cs) ps"
      then have "c # cs = [] @ (c # cs) \<and> like_match (c # cs) ps" by simp
      then show ?thesis by blast
    next
      assume "\<exists>ys zs. cs = ys @ zs \<and> like_match zs ps"
      then obtain ys zs where "cs = ys @ zs" "like_match zs ps" by blast
      then have "c # cs = (c # ys) @ zs \<and> like_match zs ps" by simp
      then show ?thesis by blast
    qed
  next
    assume "\<exists>ys zs. c # cs = ys @ zs \<and> like_match zs ps"
    then obtain ys zs where yz: "c # cs = ys @ zs" "like_match zs ps" by blast
    show "like_match (c # cs) ps \<or> (\<exists>ys zs. cs = ys @ zs \<and> like_match zs ps)"
    proof (cases ys)
      case Nil
      then show ?thesis using yz by simp
    next
      case (Cons y ys')
      then have "cs = ys' @ zs" using yz by simp
      then show ?thesis using yz(2) by blast
    qed
  qed
  finally show ?case .
qed

lemma like_contains:
  assumes "list_all (\<lambda>c. \<not> like_special c) q"
  shows "like_match t (CHR ''%'' # q @ [CHR ''%'']) = sublist q t"
proof -
  have "like_match t (CHR ''%'' # q @ [CHR ''%'']) = (\<exists>ys zs. t = ys @ zs \<and> prefix q zs)"
    by (simp only: like_leading_percent like_plain_prefix[OF assms])
  also have "\<dots> = sublist q t"
    by (auto simp: sublist_def prefix_def)
  finally show ?thesis .
qed

lemma of_char_lower:
  assumes "65 \<le> (of_char c :: nat)" "(of_char c :: nat) \<le> 90"
  shows "(of_char (lower_char c) :: nat) = of_char c + 32"
proof -
  have "(of_char c :: nat) + 32 < 256" using assms by simp
  then show ?thesis using assms by (simp add: lower_char_def Let_def)
qed

lemma lower_char_special: "like_special (lower_char c) = like_special c"
proof (cases "65 \<le> (of_char c :: nat) \<and> (of_char c :: nat) \<le> 90")
  case True
  then have l: "(of_char (lower_char c) :: nat) = of_char c + 32" by (simp add: of_char_lower)
  have "\<not> like_special c" using True by (auto simp: like_special_def)
  moreover have "\<not> like_special (lower_char c)"
  proof
    assume "like_special (lower_char c)"
    then have "(of_char (lower_char c) :: nat) \<in> {37, 95, 92}"
      by (auto simp: like_special_def)
    then show False using l True by auto
  qed
  ultimately show ?thesis by simp
next
  case False
  then show ?thesis by (auto simp: lower_char_def Let_def)
qed

lemma lower_plain: "list_all (\<lambda>c. \<not> like_special c) (lower q) = list_all (\<lambda>c. \<not> like_special c) q"
  by (induction q) (simp_all add: lower_def lower_char_special)

lemma lower_percent: "lower_char CHR ''%'' = CHR ''%''"
  by (simp add: lower_char_def)

lemma ilike_contains:
  assumes "plain_query q"
  shows "ilike t (CHR ''%'' # q @ [CHR ''%'']) = ci_contains t q"
proof -
  have "lower (CHR ''%'' # q @ [CHR ''%'']) = CHR ''%'' # lower q @ [CHR ''%'']"
    by (simp add: lower_def lower_percent)
  moreover have "list_all (\<lambda>c. \<not> like_special c) (lower q)"
    using assms by (simp add: lower_plain plain_query_def)
  ultimately show ?thesis
    by (simp only: ilike_def ci_contains_def like_contains)
qed

lemma no_lone_escape: "\<not> lone_escape (q @ [CHR ''%''])"
  by (induction q rule: lone_escape.induct) simp_all

text \<open>The pattern that \<open>searchProducts\<close> builds never ends in an unescaped backslash.\<close>

lemma search_pattern_ok: "\<not> lone_escape (lower (CHR ''%'' # query @ [CHR ''%'']))"
proof -
  obtain d ds where rest: "lower query @ [CHR ''%''] = d # ds"
    by (cases "lower query @ [CHR ''%'']") simp_all
  have "lower (CHR ''%'' # query @ [CHR ''%'']) = CHR ''%'' # d # ds"
    using rest by (simp add: lower_def lower_percent)
  moreover have "\<not> lone_escape (d # ds)"
    using no_lone_escape[of "lower query"] rest by simp
  ultimately show ?thesis by simp
qed


lemma lower_widget_name: "lower ''ABC Widget'' = ''abc widget''"
  by code_simp

lemma lower_widget_sku: "lower ''X-100'' = ''x-100''"
  by code_simp

lemma lower_abc: "lower ''abc'' = ''abc''" "lower ''zzz'' = ''zzz''" "lower ''_'' = ''_''"
  by (simp_all add: lower_def lower_char_def)

text \<open>
  Claim C4, amended. For every query without a \<open>LIKE\<close> metacharacter (\<open>%\<close>, \<open>_\<close>,
  backslash), \<open>searchProducts\<close> returns exactly the products that are not deleted and whose
  name or SKU contains the query as a substring up to case, ordered by name.
\<close>

theorem searchProducts_plain_query:
  assumes "plain_query query"
  shows "searchProducts s query =
           sort_key p_name
             (filter (\<lambda>p. p_deletedAt p = None \<and>
                          (ci_contains (p_name p) query \<or> ci_contains (p_sku p) query))
                (products s)) \<and>
         sorted (map p_name (searchProducts s query)) \<and>
         mset (searchProducts s query) =
           filter_mset (\<lambda>p. p_deletedAt p = None \<and>
                          (ci_contains (p_name p) query \<or> ci_contains (p_sku p) query))
             (mset (products s))"
proof -
  have eq: "searchProducts s query =
           sort_key p_name
             (filter (\<lambda>p. p_deletedAt p = None \<and>
                          (ci_contains (p_name p) query \<or> ci_contains (p_sku p) query))
                (products s))"
    by (simp only: searchProducts_def ilike_contains[OF assms])
  show ?thesis
    by (simp only: eq) simp
qed

text \<open>
  The product named \<open>ABC Widget\<close> with SKU \<open>X-100\<close> is found by \<open>abc\<close> and not by \<open>zzz\<close>.
\<close>

theorem searchProducts_plain_query_witness:
  "searchProducts catalog_db ''abc'' = [widget] \<and> searchProducts catalog_db ''zzz'' = []"
proof -
  have abc: "plain_query ''abc''" and zzz: "plain_query ''zzz''"
    by (simp_all add: plain_query_def like_special_def)
  have c1: "ci_contains (p_name widget) ''abc''"
    by (simp add: ci_contains_def widget_def lower_widget_name lower_abc)
  have c2: "\<not> ci_contains (p_name widget) ''zzz''" "\<not> ci_contains (p_sku widget) ''zzz''"
    by (simp_all add: ci_contains_def widget_def lower_widget_name lower_widget_sku lower_abc
        sublist_Cons_right prefix_Cons)
  have live: "p_deletedAt widget = None" by (simp add: widget_def)
  show ?thesis
    using searchProducts_plain_query[OF abc, of catalog_db]
      searchProducts_plain_query[OF zzz, of catalog_db] c1 c2 live
    by (simp add: catalog_db_def empty_db_def)
qed

text \<open>
  The claim as stated, for every query, fails: the query \<open>_\<close> is a pattern for any one
  character and finds the widget, whose name and SKU contain no underscore.
\<close>

theorem searchProducts_wildcard_counterexample:
  "searchProducts catalog_db ''_'' = [widget] \<and>
   \<not> ci_contains (p_name widget) ''_'' \<and> \<not> ci_contains (p_sku widget) ''_''"
proof -
  have m: "ilike (p_name widget) (CHR ''%'' # ''_'' @ [CHR ''%''])"
    by (simp add: ilike_def widget_def lower_widget_name lower_def lower_char_def)
  have c: "\<not> ci_contains (p_name widget) ''_''" "\<not> ci_contains (p_sku widget) ''_''"
    by (simp_all add: ci_contains_def widget_def lower_widget_name lower_widget_sku lower_abc
        sublist_Cons_right prefix_Cons)
  have live: "p_deletedAt widget = None" by (simp add: widget_def)
  show ?thesis using m c live
    by (simp add: searchProducts_def catalog_db_def empty_db_def)
qed

section \<open>Low stock\<close>

lemma is_true_le_None: "\<not> is_true (sql_le a None)"
  by (simp add: is_true_def sql_le_def split: option.splits)

lemma lowStockRows_set:
  "set (lowStockRows s) =
     {(p, i). p \<in> set (products s) \<and> i \<in> set (inventory s) \<and> p_id p = i_productId i \<and>
              p_deletedAt p = None \<and> is_true (sql_le (Some (i_quantity i)) (p_reorderPoint p))}"
  by (auto simp: lowStockRows_def)

lemma lowStockRows_sorted: "sorted (map (\<lambda>row. p_name (fst row)) (lowStockRows s))"
  by (simp add: lowStockRows_def)

lemma lowStockItem_fields:
  "p_reorderPoint (fst (lowStockItem row)) = p_reorderPoint (fst row)"
  "p_name (fst (lowStockItem row)) = p_name (fst row)"
  "p_id (fst (lowStockItem row)) = i_id (snd row)"
  "snd (lowStockItem row) = snd row"
  by (simp_all add: lowStockItem_def Let_def)

lemma getLowStockItems_balances: "map snd (getLowStockItems s) = map snd (lowStockRows s)"
  by (simp add: getLowStockItems_def lowStockItem_fields)

text \<open>
  Claim C10. A product whose reorder point is unset is in no row of the low-stock query,
  whatever the quantity of its balances: the comparison with \<open>NULL\<close> is not true. So no
  returned item carries an unset reorder point.
\<close>

theorem unset_reorder_point_never_low_stock:
  assumes "p_reorderPoint p = None"
  shows "(p, i) \<notin> set (lowStockRows s) \<and>
         None \<notin> (\<lambda>item. p_reorderPoint (fst item)) ` set (getLowStockItems s)"
proof -
  have rows: "p_reorderPoint (fst row) \<noteq> None" if "row \<in> set (lowStockRows s)" for row
  proof -
    obtain q j where row: "row = (q, j)" by (cases row)
    then have "is_true (sql_le (Some (i_quantity j)) (p_reorderPoint q))"
      using that by (simp add: lowStockRows_set)
    then show ?thesis using is_true_le_None[of "Some (i_quantity j)"] row
      by (cases "p_reorderPoint q") auto
  qed
  have "(p, i) \<notin> set (lowStockRows s)"
    using rows[of "(p, i)"] assms by auto
  moreover have "None \<notin> (\<lambda>item. p_reorderPoint (fst item)) ` set (getLowStockItems s)"
  proof
    assume "None \<in> (\<lambda>item. p_reorderPoint (fst item)) ` set (getLowStockItems s)"
    then obtain row where "row \<in> set (lowStockRows s)"
        "p_reorderPoint (fst (lowStockItem row)) = None"
      by (auto simp: getLowStockItems_def)
    then show False using rows[of row] by (simp add: lowStockItem_fields)
  qed
  ultimately show ?thesis by simp
qed


text \<open>A product without reorder point and a balance of \<open>-5\<close>: the answer is empty.\<close>

theorem unset_reorder_point_never_low_stock_witness:
  "(widget\<lparr>p_reorderPoint := None\<rparr>, balance 7 1 (- 5)) \<notin> set (lowStockRows unset_db) \<and>
   getLowStockItems unset_db = []"
proof -
  have unset: "p_reorderPoint (widget\<lparr>p_reorderPoint := None\<rparr>) = None" by simp
  have "lowStockRows unset_db = []"
    by (simp add: lowStockRows_def unset_db_def catalog_db_def empty_db_def balance_def
        widget_def is_true_def sql_le_def)
  then have "getLowStockItems unset_db = []" by (simp add: getLowStockItems_def)
  with unset_reorder_point_never_low_stock[OF unset, of "balance 7 1 (- 5)" unset_db]
  show ?thesis by simp
qed

text \<open>
  The scenario of the specification: the balance of quantity 7 is selected against the reorder
  point 10, and no longer once an \<open>IN\<close> movement of 8 has raised it to 15.
\<close>

lemma low_stock_scenario:
  "map snd (getLowStockItems stocked_db) = [balance 7 1 7] \<and>
   i_quantity (balance 7 1 7) = 7 \<and> p_reorderPoint widget = Some 10 \<and>
   map i_quantity (inventory (fst (createStockMovement stocked_db (movement 1 ''W1'' ''IN'' 8) 60))) = [15] \<and>
   getLowStockItems (fst (createStockMovement stocked_db (movement 1 ''W1'' ''IN'' 8) 60)) = []"
  by (simp add: getLowStockItems_def lowStockRows_def lowStockItem_def Let_def stocked_db_def
      catalog_db_def empty_db_def balance_def widget_def is_true_def sql_le_def
      createStockMovement_def movement_def getInventoryByProductAndWarehouse_def
      updateInventory_def merge_inventory_def Number_safe plus_double_safe safe_integer_def)

text \<open>
  Claim C5 at a store with the product of key 1 (reorder point 10) and its balance of key 7
  (quantity 7). The query selects the pair, but the product it returns carries the key and the
  timestamps of the balance: key 7, under which no product is stored.
\<close>

theorem low_stock_item_carries_balance_key:
  "getLowStockItems stocked_db =
     [(widget\<lparr>p_id := 7, p_createdAt := Some 3, p_updatedAt := Some 3\<rparr>, balance 7 1 7)] \<and>
   products stocked_db = [widget] \<and> inventory stocked_db = [balance 7 1 7] \<and>
   p_id widget = 1 \<and> getProduct stocked_db 7 = None"
  by (simp add: getLowStockItems_def lowStockRows_def lowStockItem_def Let_def stocked_db_def
      catalog_db_def empty_db_def balance_def widget_def is_true_def sql_le_def getProduct_def)

section \<open>The ledger is append-only\<close>

lemma step_ledger:
  "stockMovements (step now call s) =
     (case call of CreateStockMovement m \<Rightarrow> stockMovements s @ [snd (createStockMovement s m now)]
      | _ \<Rightarrow> stockMovements s)"
proof (cases call)
  case (CreateStockMovement m)
  then show ?thesis
    by (simp add: createStockMovement_def Let_def getInventoryByProductAndWarehouse_def
        updateInventory_def createInventory_def split: option.splits)
qed (simp_all add: createUser_def updateUser_def deleteUser_def createProduct_def
    updateProduct_def deleteProduct_def createProductCategory_def updateProductCategory_def
    deleteProductCategory_def createUnitOfMeasure_def updateUnitOfMeasure_def
    deleteUnitOfMeasure_def createInventory_def updateInventory_def deleteInventory_def
    createOrder_def updateOrder_def deleteOrder_def createOrderItem_def updateOrderItem_def
    deleteOrderItem_def createWarehouse_def updateWarehouse_def deleteWarehouse_def Let_def)

lemma run_ledger:
  "\<exists>new. stockMovements (run calls s) = stockMovements s @ new \<and> length new = appended calls"
proof (induction calls arbitrary: s)
  case Nil
  then show ?case by (simp add: appended_def)
next
  case (Cons call calls)
  obtain new where new: "stockMovements (run calls (step (fst call) (snd call) s)) =
      stockMovements (step (fst call) (snd call) s) @ new" "length new = appended calls"
    using Cons.IH by blast
  show ?case
  proof (cases "snd call")
    case (CreateStockMovement m)
    then show ?thesis using new
      by (simp add: step_ledger appended_def del: step.simps)
  qed (use new in \<open>simp_all add: step_ledger appended_def del: step.simps\<close>)
qed

text \<open>
  Claim C6. No call of the storage contract changes or removes a ledger entry. After any run
  of calls the ledger starts with the entries it had before, unchanged and in place, followed
  by one new entry for each \<open>createStockMovement\<close> of the run.
\<close>

theorem ledger_only_grows:
  "prefix (stockMovements s) (stockMovements (run calls s)) \<and>
   take (length (stockMovements s)) (stockMovements (run calls s)) = stockMovements s \<and>
   length (stockMovements (run calls s)) = length (stockMovements s) + appended calls"
proof -
  obtain new where "stockMovements (run calls s) = stockMovements s @ new"
      "length new = appended calls"
    using run_ledger by blast
  then show ?thesis by simp
qed

text \<open>
  Deleting the product, recording a movement, rewriting and deleting balances: the three old
  entries stay and one is added.
\<close>

theorem ledger_only_grows_witness:
  "take 3 (stockMovements (run sample_run ledger_db)) =
     [entry 1 1 ''W1'' 10, entry 2 2 ''W1'' 30, entry 3 1 ''W2'' 20] \<and>
   length (stockMovements (run sample_run ledger_db)) = 4"
proof -
  have before: "stockMovements ledger_db = [entry 1 1 ''W1'' 10, entry 2 2 ''W1'' 30, entry 3 1 ''W2'' 20]"
    by (simp add: ledger_db_def empty_db_def)
  have count: "appended sample_run = 1"
    by (simp add: appended_def sample_run_def)
  have len: "length (stockMovements ledger_db) = 3"
    by (simp add: before)
  from ledger_only_grows[of ledger_db sample_run]
  have "take (length (stockMovements ledger_db)) (stockMovements (run sample_run ledger_db)) =
          stockMovements ledger_db"
    and "length (stockMovements (run sample_run ledger_db)) =
          length (stockMovements ledger_db) + appended sample_run"
    by blast+
  then have "take 3 (stockMovements (run sample_run ledger_db)) = stockMovements ledger_db"
    and "length (stockMovements (run sample_run ledger_db)) = 3 + 1"
    by (simp_all only: len count)
  then show ?thesis by (simp only: before) simp
qed

section \<open>Reading the ledger\<close>

lemma newest_first_order_by_desc: "newest_first (order_by_desc m_createdAt ms)"
proof -
  have "sorted (map m_createdAt (sort_key m_createdAt ms))" by simp
  then have "sorted_wrt (\<lambda>a b. m_createdAt a \<le> m_createdAt b) (sort_key m_createdAt ms)"
    by (simp only: sorted_map)
  then show ?thesis
    by (simp add: newest_first_def order_by_desc_def sorted_wrt_rev)
qed

lemma mset_order_by_desc: "mset (order_by_desc f ms) = mset ms"
  by (simp add: order_by_desc_def)

lemma newest_first_take: "newest_first ms \<Longrightarrow> newest_first (take n ms)"
  by (simp add: newest_first_def sorted_wrt_take)

lemma getRecentStockMovements_answer:
  "snd (getRecentStockMovements s limit) =
     (let n = (case limit of None \<Rightarrow> 10 | Some l \<Rightarrow> l)
      in if n < 0 then order_by_desc m_createdAt (stockMovements s)
         else take (nat n) (order_by_desc m_createdAt (stockMovements s)))"
  by (simp add: getRecentStockMovements_def db_select_def Let_def)

text \<open>The transition system agrees with the three methods on the store they leave.\<close>

lemma step_ledger_reads:
  "step now (Query (GetStockMovementsByProduct productId)) s =
     fst (getStockMovementsByProduct s productId)"
  "step now (Query (GetStockMovementsByWarehouse warehouseId)) s =
     fst (getStockMovementsByWarehouse s warehouseId)"
  "step now (Query (GetRecentStockMovements limit)) s = fst (getRecentStockMovements s limit)"
  by (simp_all add: getStockMovementsByProduct_def getStockMovementsByWarehouse_def
      getRecentStockMovements_def db_select_def Let_def)

text \<open>
  Claim C7, amended. The movements of a product and those of a warehouse are listed newest
  first, each entry of the ledger with that product or warehouse once.
  \<open>getRecentStockMovements\<close> answers newest first for any limit; without a limit it returns
  the first 10 entries of the whole ledger listed newest first, and with a limit that is not
  negative the first \<open>limit\<close> of them, so at most \<open>limit\<close> entries. Each of the three methods
  leaves the store as it found it.
\<close>

theorem movement_listings_newest_first:
  "fst (getStockMovementsByProduct s productId) = s \<and>
   newest_first (snd (getStockMovementsByProduct s productId)) \<and>
   mset (snd (getStockMovementsByProduct s productId)) =
     filter_mset (\<lambda>m. m_productId m = productId) (mset (stockMovements s)) \<and>
   fst (getStockMovementsByWarehouse s warehouseId) = s \<and>
   newest_first (snd (getStockMovementsByWarehouse s warehouseId)) \<and>
   mset (snd (getStockMovementsByWarehouse s warehouseId)) =
     filter_mset (\<lambda>m. m_warehouseId m = warehouseId) (mset (stockMovements s)) \<and>
   fst (getRecentStockMovements s any_limit) = s \<and>
   newest_first (snd (getRecentStockMovements s any_limit)) \<and>
   (\<exists>all. mset all = mset (stockMovements s) \<and> newest_first all \<and>
      snd (getRecentStockMovements s None) = take 10 all) \<and>
   length (snd (getRecentStockMovements s None)) \<le> 10 \<and>
   (0 \<le> limit \<longrightarrow>
      (\<exists>all. mset all = mset (stockMovements s) \<and> newest_first all \<and>
         snd (getRecentStockMovements s (Some limit)) = take (nat limit) all) \<and>
      int (length (snd (getRecentStockMovements s (Some limit)))) \<le> limit)"
proof -
  let ?all = "order_by_desc m_createdAt (stockMovements s)"
  have all: "mset ?all = mset (stockMovements s)" "newest_first ?all"
    by (simp_all add: mset_order_by_desc newest_first_order_by_desc)
  have pure: "fst (getStockMovementsByProduct s productId) = s"
    "fst (getStockMovementsByWarehouse s warehouseId) = s"
    "fst (getRecentStockMovements s any_limit) = s"
    by (simp_all add: getStockMovementsByProduct_def getStockMovementsByWarehouse_def
        getRecentStockMovements_def db_select_def Let_def)
  have byp: "newest_first (snd (getStockMovementsByProduct s productId))"
    "mset (snd (getStockMovementsByProduct s productId)) =
       filter_mset (\<lambda>m. m_productId m = productId) (mset (stockMovements s))"
    by (simp_all add: getStockMovementsByProduct_def db_select_def newest_first_order_by_desc
        mset_order_by_desc)
  have byw: "newest_first (snd (getStockMovementsByWarehouse s warehouseId))"
    "mset (snd (getStockMovementsByWarehouse s warehouseId)) =
       filter_mset (\<lambda>m. m_warehouseId m = warehouseId) (mset (stockMovements s))"
    by (simp_all add: getStockMovementsByWarehouse_def db_select_def newest_first_order_by_desc
        mset_order_by_desc)
  have any: "newest_first (snd (getRecentStockMovements s any_limit))"
    using all(2) newest_first_take[OF all(2)]
    by (simp add: getRecentStockMovements_answer Let_def)
  have dflt: "snd (getRecentStockMovements s None) = take 10 ?all"
    by (simp add: getRecentStockMovements_answer)
  have dflt_all: "\<exists>all. mset all = mset (stockMovements s) \<and> newest_first all \<and>
      snd (getRecentStockMovements s None) = take 10 all"
    using all dflt by blast
  have dflt_len: "length (snd (getRecentStockMovements s None)) \<le> 10"
    by (simp add: dflt)
  have given: "(\<exists>all. mset all = mset (stockMovements s) \<and> newest_first all \<and>
         snd (getRecentStockMovements s (Some limit)) = take (nat limit) all) \<and>
      int (length (snd (getRecentStockMovements s (Some limit)))) \<le> limit" if "0 \<le> limit"
  proof -
    have eq: "snd (getRecentStockMovements s (Some limit)) = take (nat limit) ?all"
      using that by (simp add: getRecentStockMovements_answer)
    have "int (length (take (nat limit) ?all)) \<le> limit" using that by simp
    then show ?thesis using all eq by auto
  qed
  show ?thesis using pure byp byw any dflt_all dflt_len given by simp
qed

text \<open>A ledger with entries created at 10, 30 and 20, in that order.\<close>

theorem movement_listings_newest_first_witness:
  "snd (getRecentStockMovements ledger_db (Some 2)) =
     [entry 2 2 ''W1'' 30, entry 3 1 ''W2'' 20] \<and>
   newest_first [entry 2 2 ''W1'' 30, entry 3 1 ''W2'' 20] \<and>
   snd (getStockMovementsByProduct ledger_db 1) = [entry 3 1 ''W2'' 20, entry 1 1 ''W1'' 10] \<and>
   newest_first (snd (getStockMovementsByProduct ledger_db 1)) \<and>
   fst (getRecentStockMovements ledger_db (Some 2)) = ledger_db"
proof -
  have limit: "(0::int) \<le> 2" by simp
  have recent: "snd (getRecentStockMovements ledger_db (Some 2)) =
      [entry 2 2 ''W1'' 30, entry 3 1 ''W2'' 20]"
    by (simp add: getRecentStockMovements_answer order_by_desc_def ledger_db_def empty_db_def
        entry_def)
  have listed: "snd (getStockMovementsByProduct ledger_db 1) =
      [entry 3 1 ''W2'' 20, entry 1 1 ''W1'' 10]"
    by (simp add: getStockMovementsByProduct_def db_select_def order_by_desc_def ledger_db_def
        empty_db_def entry_def)
  from movement_listings_newest_first[of ledger_db 1 "''W1''" "Some 2" 2]
  have "newest_first (snd (getStockMovementsByProduct ledger_db 1))"
    and "newest_first (snd (getRecentStockMovements ledger_db (Some 2)))"
    and "fst (getRecentStockMovements ledger_db (Some 2)) = ledger_db"
    by blast+
  then show ?thesis using recent listed by simp
qed

text \<open>
  The claim as stated, for every limit, fails at a negative one: with limit \<open>-1\<close> the answer
  is the whole ledger of three entries.
\<close>

theorem negative_limit_counterexample:
  "snd (getRecentStockMovements ledger_db (Some (- 1))) =
     [entry 2 2 ''W1'' 30, entry 3 1 ''W2'' 20, entry 1 1 ''W1'' 10] \<and>
   \<not> int (length (snd (getRecentStockMovements ledger_db (Some (- 1))))) \<le> - 1"
proof -
  have "snd (getRecentStockMovements ledger_db (Some (- 1))) =
      [entry 2 2 ''W1'' 30, entry 3 1 ''W2'' 20, entry 1 1 ''W1'' 10]"
    by (simp add: getRecentStockMovements_answer order_by_desc_def ledger_db_def empty_db_def
        entry_def)
  then show ?thesis by simp
qed

section \<open>Total inventory value\<close>

lemma non_null_append [simp]: "non_null (xs @ ys) = non_null xs @ non_null ys"
  by (induction xs rule: non_null.induct) simp_all

lemma getInventoryValue_sum:
  "getInventoryValue s = sum_list (non_null (inventoryValueRows s))"
  by (cases "non_null (inventoryValueRows s)")
     (simp_all add: getInventoryValue_def sql_sum_def )

lemma matching_products:
  assumes "distinct (map p_id ps)"
  shows "filter (\<lambda>p. k = p_id p \<and> p_deletedAt p = None) ps =
     (case find (\<lambda>p. p_id p = k) ps of None \<Rightarrow> []
      | Some p \<Rightarrow> if p_deletedAt p = None then [p] else [])"
  using assms
proof (induction ps)
  case Nil
  then show ?case by simp
next
  case (Cons a ps)
  show ?case
  proof (cases "p_id a = k")
    case True
    then have "k \<notin> p_id ` set ps" using Cons.prems by auto
    then have "filter (\<lambda>p. k = p_id p \<and> p_deletedAt p = None) ps = []"
      by (auto simp: filter_empty_conv)
    then show ?thesis using True by simp
  next
    case False
    then show ?thesis using Cons by auto
  qed
qed

lemma row_value:
  assumes "distinct (map p_id (products s))"
  shows "sum_list (non_null (map (\<lambda>p. sql_times (Some (i_quantity i)) (p_cost p))
            (filter (\<lambda>p. i_productId i = p_id p \<and> p_deletedAt p = None) (products s)))) =
         balance_value s i"
  by (simp add: matching_products[OF assms] balance_value_def sql_times_def
      split: option.splits)

text \<open>
  Claim C8. With product keys unique, \<open>getInventoryValue\<close> is the sum over the balance rows
  of the quantity times the cost of the product the row refers to, counting only rows whose
  product exists and is not deleted. A balance of a soft-deleted product adds nothing, and
  neither does one whose product has no cost.
\<close>

theorem getInventoryValue_is_total_balance_value:
  assumes "distinct (map p_id (products s))"
  shows "getInventoryValue s = total_balance_value s"
proof -
  have "sum_list (non_null (concat (map (\<lambda>i. map (\<lambda>p. sql_times (Some (i_quantity i)) (p_cost p))
                         (filter (\<lambda>p. i_productId i = p_id p \<and> p_deletedAt p = None) (products s)))
                 is))) = sum_list (map (balance_value s) is)" for "is"
    by (induction "is") (simp_all add: row_value[OF assms])
  then show ?thesis
    by (simp add: getInventoryValue_sum inventoryValueRows_def total_balance_value_def)
qed

text \<open>
  Seven widgets at cost 5, and a hundred items of a soft-deleted product: the value is 35.
\<close>

theorem getInventoryValue_is_total_balance_value_witness:
  "getInventoryValue valued_db = 35"
proof -
  have rows: "products valued_db = [widget, widget\<lparr>p_id := 2, p_deletedAt := Some 9\<rparr>]"
    "inventory valued_db = [balance 7 1 7, balance 8 2 100]"
    by (simp_all add: valued_db_def catalog_db_def empty_db_def)
  have keys: "distinct (map p_id (products valued_db))"
    by (simp add: rows widget_def)
  have "total_balance_value valued_db = 35"
    by (simp add: total_balance_value_def balance_value_def rows widget_def balance_def)
  with getInventoryValue_is_total_balance_value[OF keys] show ?thesis by simp
qed

section \<open>Updating a product\<close>

text \<open>
  The fold of the assignments is the column-wise merge: every column of the merged row holds
  the last value the patch provides for it, or its old value.
\<close>

lemma merge_product_snoc: "merge_product (patch @ [a]) p = set_product a (merge_product patch p)"
  by (simp add: merge_product_def)

lemma provided_Nil: "provided column [] old = old"
  by (simp add: provided_def)

lemma provided_snoc:
  "provided column (patch @ [a]) old =
     (case column a of None \<Rightarrow> provided column patch old | Some v \<Rightarrow> v)"
  by (cases "column a"; cases "non_null (map column patch)") (simp_all add: provided_def)

lemma merge_product_id:
  "p_id (merge_product patch p) = provided given_id patch (p_id p)"
proof (induction patch rule: rev_induct)
  case Nil
  show ?case by (simp add: merge_product_def provided_Nil)
next
  case (snoc a patch)
  show ?case
    by (cases a) (simp_all add: merge_product_snoc provided_snoc given_id_def snoc)
qed

lemma merge_product_sku:
  "p_sku (merge_product patch p) = provided given_sku patch (p_sku p)"
proof (induction patch rule: rev_induct)
  case Nil
  show ?case by (simp add: merge_product_def provided_Nil)
next
  case (snoc a patch)
  show ?case
    by (cases a) (simp_all add: merge_product_snoc provided_snoc given_sku_def snoc)
qed

lemma merge_product_name:
  "p_name (merge_product patch p) = provided given_name patch (p_name p)"
proof (induction patch rule: rev_induct)
  case Nil
  show ?case by (simp add: merge_product_def provided_Nil)
next
  case (snoc a patch)
  show ?case
    by (cases a) (simp_all add: merge_product_snoc provided_snoc given_name_def snoc)
qed

lemma merge_product_description:
  "p_description (merge_product patch p) = provided given_description patch (p_description p)"
proof (induction patch rule: rev_induct)
  case Nil
  show ?case by (simp add: merge_product_def provided_Nil)
next
  case (snoc a patch)
  show ?case
    by (cases a) (simp_all add: merge_product_snoc provided_snoc given_description_def snoc)
qed

lemma merge_product_categoryId:
  "p_categoryId (merge_product patch p) = provided given_categoryId patch (p_categoryId p)"
proof (induction patch rule: rev_induct)
  case Nil
  show ?case by (simp add: merge_product_def provided_Nil)
next
  case (snoc a patch)
  show ?case
    by (cases a) (simp_all add: merge_product_snoc provided_snoc given_categoryId_def snoc)
qed

lemma merge_product_uomId:
  "p_uomId (merge_product patch p) = provided given_uomId patch (p_uomId p)"
proof (induction patch rule: rev_induct)
  case Nil
  show ?case by (simp add: merge_product_def provided_Nil)
next
  case (snoc a patch)
  show ?case
    by (cases a) (simp_all add: merge_product_snoc provided_snoc given_uomId_def snoc)
qed

lemma merge_product_price:
  "p_price (merge_product patch p) = provided given_price patch (p_price p)"
proof (induction patch rule: rev_induct)
  case Nil
  show ?case by (simp add: merge_product_def provided_Nil)
next
  case (snoc a patch)
  show ?case
    by (cases a) (simp_all add: merge_product_snoc provided_snoc given_price_def snoc)
qed

lemma merge_product_cost:
  "p_cost (merge_product patch p) = provided given_cost patch (p_cost p)"
proof (induction patch rule: rev_induct)
  case Nil
  show ?case by (simp add: merge_product_def provided_Nil)
next
  case (snoc a patch)
  show ?case
    by (cases a) (simp_all add: merge_product_snoc provided_snoc given_cost_def snoc)
qed

lemma merge_product_weight:
  "p_weight (merge_product patch p) = provided given_weight patch (p_weight p)"
proof (induction patch rule: rev_induct)
  case Nil
  show ?case by (simp add: merge_product_def provided_Nil)
next
  case (snoc a patch)
  show ?case
    by (cases a) (simp_all add: merge_product_snoc provided_snoc given_weight_def snoc)
qed

lemma merge_product_length:
  "p_length (merge_product patch p) = provided given_length patch (p_length p)"
proof (induction patch rule: rev_induct)
  case Nil
  show ?case by (simp add: merge_product_def provided_Nil)
next
  case (snoc a patch)
  show ?case
    by (cases a) (simp_all add: merge_product_snoc provided_snoc given_length_def snoc)
qed

lemma merge_product_width:
  "p_width (merge_product patch p) = provided given_width patch (p_width p)"
proof (induction patch rule: rev_induct)
  case Nil
  show ?case by (simp add: merge_product_def provided_Nil)
next
  case (snoc a patch)
  show ?case
    by (cases a) (simp_all add: merge_product_snoc provided_snoc given_width_def snoc)
qed

lemma merge_product_height:
  "p_height (merge_product patch p) = provided given_height patch (p_height p)"
proof (induction patch rule: rev_induct)
  case Nil
  show ?case by (simp add: merge_product_def provided_Nil)
next
  case (snoc a patch)
  show ?case
    by (cases a) (simp_all add: merge_product_snoc provided_snoc given_height_def snoc)
qed

lemma merge_product_minStockLevel:
  "p_minStockLevel (merge_product patch p) = provided given_minStockLevel patch (p_minStockLevel p)"
proof (induction patch rule: rev_induct)
  case Nil
  show ?case by (simp add: merge_product_def provided_Nil)
next
  case (snoc a patch)
  show ?case
    by (cases a) (simp_all add: merge_product_snoc provided_snoc given_minStockLevel_def snoc)
qed

lemma merge_product_maxStockLevel:
  "p_maxStockLevel (merge_product patch p) = provided given_maxStockLevel patch (p_maxStockLevel p)"
proof (induction patch rule: rev_induct)
  case Nil
  show ?case by (simp add: merge_product_def provided_Nil)
next
  case (snoc a patch)
  show ?case
    by (cases a) (simp_all add: merge_product_snoc provided_snoc given_maxStockLevel_def snoc)
qed

lemma merge_product_reorderPoint:
  "p_reorderPoint (merge_product patch p) = provided given_reorderPoint patch (p_reorderPoint p)"
proof (induction patch rule: rev_induct)
  case Nil
  show ?case by (simp add: merge_product_def provided_Nil)
next
  case (snoc a patch)
  show ?case
    by (cases a) (simp_all add: merge_product_snoc provided_snoc given_reorderPoint_def snoc)
qed

lemma merge_product_leadTime:
  "p_leadTime (merge_product patch p) = provided given_leadTime patch (p_leadTime p)"
proof (induction patch rule: rev_induct)
  case Nil
  show ?case by (simp add: merge_product_def provided_Nil)
next
  case (snoc a patch)
  show ?case
    by (cases a) (simp_all add: merge_product_snoc provided_snoc given_leadTime_def snoc)
qed

lemma merge_product_isActive:
  "p_isActive (merge_product patch p) = provided given_isActive patch (p_isActive p)"
proof (induction patch rule: rev_induct)
  case Nil
  show ?case by (simp add: merge_product_def provided_Nil)
next
  case (snoc a patch)
  show ?case
    by (cases a) (simp_all add: merge_product_snoc provided_snoc given_isActive_def snoc)
qed

lemma merge_product_imageUrl:
  "p_imageUrl (merge_product patch p) = provided given_imageUrl patch (p_imageUrl p)"
proof (induction patch rule: rev_induct)
  case Nil
  show ?case by (simp add: merge_product_def provided_Nil)
next
  case (snoc a patch)
  show ?case
    by (cases a) (simp_all add: merge_product_snoc provided_snoc given_imageUrl_def snoc)
qed

lemma merge_product_barcode:
  "p_barcode (merge_product patch p) = provided given_barcode patch (p_barcode p)"
proof (induction patch rule: rev_induct)
  case Nil
  show ?case by (simp add: merge_product_def provided_Nil)
next
  case (snoc a patch)
  show ?case
    by (cases a) (simp_all add: merge_product_snoc provided_snoc given_barcode_def snoc)
qed

lemma merge_product_createdAt:
  "p_createdAt (merge_product patch p) = provided given_createdAt patch (p_createdAt p)"
proof (induction patch rule: rev_induct)
  case Nil
  show ?case by (simp add: merge_product_def provided_Nil)
next
  case (snoc a patch)
  show ?case
    by (cases a) (simp_all add: merge_product_snoc provided_snoc given_createdAt_def snoc)
qed

lemma merge_product_updatedAt:
  "p_updatedAt (merge_product patch p) = provided given_updatedAt patch (p_updatedAt p)"
proof (induction patch rule: rev_induct)
  case Nil
  show ?case by (simp add: merge_product_def provided_Nil)
next
  case (snoc a patch)
  show ?case
    by (cases a) (simp_all add: merge_product_snoc provided_snoc given_updatedAt_def snoc)
qed

lemma merge_product_deletedAt:
  "p_deletedAt (merge_product patch p) = provided given_deletedAt patch (p_deletedAt p)"
proof (induction patch rule: rev_induct)
  case Nil
  show ?case by (simp add: merge_product_def provided_Nil)
next
  case (snoc a patch)
  show ?case
    by (cases a) (simp_all add: merge_product_snoc provided_snoc given_deletedAt_def snoc)
qed

lemma merge_product_createdBy:
  "p_createdBy (merge_product patch p) = provided given_createdBy patch (p_createdBy p)"
proof (induction patch rule: rev_induct)
  case Nil
  show ?case by (simp add: merge_product_def provided_Nil)
next
  case (snoc a patch)
  show ?case
    by (cases a) (simp_all add: merge_product_snoc provided_snoc given_createdBy_def snoc)
qed

lemma merge_product_updatedBy:
  "p_updatedBy (merge_product patch p) = provided given_updatedBy patch (p_updatedBy p)"
proof (induction patch rule: rev_induct)
  case Nil
  show ?case by (simp add: merge_product_def provided_Nil)
next
  case (snoc a patch)
  show ?case
    by (cases a) (simp_all add: merge_product_snoc provided_snoc given_updatedBy_def snoc)
qed

lemma merge_product_deletedBy:
  "p_deletedBy (merge_product patch p) = provided given_deletedBy patch (p_deletedBy p)"
proof (induction patch rule: rev_induct)
  case Nil
  show ?case by (simp add: merge_product_def provided_Nil)
next
  case (snoc a patch)
  show ?case
    by (cases a) (simp_all add: merge_product_snoc provided_snoc given_deletedBy_def snoc)
qed

lemma merge_product_merged:
  "merge_product (patch @ [P_updatedAt (Some now)]) p = merged patch now p"
  by (rule product.equality)
     (simp_all add: merge_product_snoc merged_def
        merge_product_id merge_product_sku merge_product_name merge_product_description merge_product_categoryId merge_product_uomId merge_product_price merge_product_cost merge_product_weight merge_product_length merge_product_width merge_product_height merge_product_minStockLevel merge_product_maxStockLevel merge_product_reorderPoint merge_product_leadTime merge_product_isActive merge_product_imageUrl merge_product_barcode merge_product_createdAt merge_product_updatedAt merge_product_deletedAt merge_product_createdBy merge_product_updatedBy merge_product_deletedBy)

lemma updateProduct_result:
  "snd (updateProduct s ident patch now) =
     map_option (merged patch now) (first_row (filter (\<lambda>p. p_id p = ident) (products s)))"
  by (cases "filter (\<lambda>p. p_id p = ident) (products s)")
     (simp_all add: updateProduct_def Let_def merge_product_merged)

lemma updateProduct_products:
  "products (fst (updateProduct s ident patch now)) =
     map (\<lambda>p. if p_id p = ident then merged patch now p else p) (products s)"
  by (simp add: updateProduct_def Let_def merge_product_merged cong: if_cong)

lemma first_row_filter_None:
  "first_row (filter P xs) = None \<longleftrightarrow> (\<forall>x \<in> set xs. \<not> P x)"
  by (induction xs) auto

lemma merged_updatedAt: "p_updatedAt (merged patch now p) = Some now"
  by (simp add: merged_def)

text \<open>
  Claim C9. \<open>updateProduct\<close> does not look at the deletion stamp. Its answer is the first row
  with the key, deleted or not, merged with the given fields: each column holds the last value
  the patch gives it, or its old value when the patch gives none, and \<open>updatedAt\<close> holds the
  time of the call whatever the patch says. Every row with the key is rewritten in that way,
  and the answer is absent exactly when no row has the key.
\<close>

theorem updateProduct_ignores_soft_delete:
  "snd (updateProduct s ident patch now) =
     map_option (merged patch now) (first_row (filter (\<lambda>p. p_id p = ident) (products s))) \<and>
   products (fst (updateProduct s ident patch now)) =
     map (\<lambda>p. if p_id p = ident then merged patch now p else p) (products s) \<and>
   (snd (updateProduct s ident patch now) = None) = (ident \<notin> p_id ` set (products s)) \<and>
   (ident \<in> p_id ` set (products s) \<longrightarrow>
      (\<exists>p r. p \<in> set (products s) \<and> p_id p = ident \<and>
             snd (updateProduct s ident patch now) = Some r \<and>
             r = merged patch now p \<and> p_updatedAt r = Some now))"
proof -
  have absent: "(snd (updateProduct s ident patch now) = None) = (ident \<notin> p_id ` set (products s))"
    by (auto simp: updateProduct_result first_row_filter_None)
  have present: "\<exists>p r. p \<in> set (products s) \<and> p_id p = ident \<and>
             snd (updateProduct s ident patch now) = Some r \<and>
             r = merged patch now p \<and> p_updatedAt r = Some now"
    if "ident \<in> p_id ` set (products s)"
  proof (cases "filter (\<lambda>p. p_id p = ident) (products s)")
    case Nil
    then show ?thesis using that by (auto simp: filter_empty_conv)
  next
    case (Cons p ps)
    then have "p \<in> set (filter (\<lambda>p. p_id p = ident) (products s))" by simp
    then have "p \<in> set (products s)" "p_id p = ident" by auto
    then show ?thesis using Cons by (auto simp: updateProduct_result merged_updatedAt)
  qed
  show ?thesis using absent present
    by (simp add: updateProduct_result updateProduct_products)
qed

text \<open>
  A soft-deleted product: \<open>getProduct\<close> finds nothing, while \<open>updateProduct\<close> returns it with
  the name given last, the price cleared, the cost set, the other columns as they were and
  \<open>updatedAt\<close> at the time of the call, not at the value in the patch. For a key without a row
  \<open>updateProduct\<close> returns nothing.
\<close>

theorem updateProduct_ignores_soft_delete_witness:
  "getProduct retired_db 1 = None \<and>
   snd (updateProduct retired_db 1
          [P_name ''Gadget'', P_price None, P_cost (Some 9), P_updatedAt (Some 1),
           P_name ''Gizmo''] 50) =
     Some \<lparr>p_id = 1, p_sku = ''X-100'', p_name = ''Gizmo'', p_description = None,
       p_categoryId = None, p_uomId = None, p_price = None, p_cost = Some 9,
       p_weight = None, p_length = None, p_width = None, p_height = None,
       p_minStockLevel = None, p_maxStockLevel = None, p_reorderPoint = Some 10,
       p_leadTime = None, p_isActive = True, p_imageUrl = None, p_barcode = None,
       p_createdAt = Some 1, p_updatedAt = Some 50, p_deletedAt = Some 9,
       p_createdBy = None, p_updatedBy = None, p_deletedBy = None\<rparr> \<and>
   snd (updateProduct retired_db 2 [P_name ''Gadget''] 50) = None"
proof -
  have rows: "products retired_db = [widget\<lparr>p_deletedAt := Some 9\<rparr>]"
    by (simp add: retired_db_def catalog_db_def empty_db_def)
  have key: "p_id widget = 1" by (simp add: widget_def)
  have hidden: "getProduct retired_db 1 = None"
    by (simp add: getProduct_def rows key)
  have row: "merged [P_name ''Gadget'', P_price None, P_cost (Some 9), P_updatedAt (Some 1),
                     P_name ''Gizmo''] 50 (widget\<lparr>p_deletedAt := Some 9\<rparr>) =
     \<lparr>p_id = 1, p_sku = ''X-100'', p_name = ''Gizmo'', p_description = None,
       p_categoryId = None, p_uomId = None, p_price = None, p_cost = Some 9,
       p_weight = None, p_length = None, p_width = None, p_height = None,
       p_minStockLevel = None, p_maxStockLevel = None, p_reorderPoint = Some 10,
       p_leadTime = None, p_isActive = True, p_imageUrl = None, p_barcode = None,
       p_createdAt = Some 1, p_updatedAt = Some 50, p_deletedAt = Some 9,
       p_createdBy = None, p_updatedBy = None, p_deletedBy = None\<rparr>"
    by (simp add: merged_def provided_def widget_def
        given_id_def given_sku_def given_name_def given_description_def
        given_categoryId_def given_uomId_def given_price_def given_cost_def
        given_weight_def given_length_def given_width_def given_height_def
        given_minStockLevel_def given_maxStockLevel_def given_reorderPoint_def given_leadTime_def
        given_isActive_def given_imageUrl_def given_barcode_def given_createdAt_def
        given_updatedAt_def given_deletedAt_def given_createdBy_def given_updatedBy_def
        given_deletedBy_def)
  show ?thesis
    using updateProduct_ignores_soft_delete[of retired_db 1
        "[P_name ''Gadget'', P_price None, P_cost (Some 9), P_updatedAt (Some 1),
          P_name ''Gizmo'']" 50]
      updateProduct_ignores_soft_delete[of retired_db 2 "[P_name ''Gadget'']" 50] hidden row
    by (simp add: rows key)
qed

end
